theory Spec2Isabelle
  imports Complex_Main "HOL-Library.Sublist"
begin

section \<open>The Solutions view: component state, query cache and bridge events\<close>

text \<open>
  The component \<^verbatim>\<open>Solutions\<close> of \<^verbatim>\<open>src/_pages/Solutions.tsx\<close> keeps its local
  state in React state hooks, reads and writes a client-side query cache, and reacts to
  events of the host bridge (\<^verbatim>\<open>window.electronAPI.on...\<close>). The state hooks, the cache,
  the view selected through the \<^verbatim>\<open>setView\<close> property and the toasts shown through
  \<^verbatim>\<open>showToast\<close> are the fields of one record; an event handler is a function from the
  state before the event to the state after it.

  The cache is the list of its queries, each a key with the value it holds; a call that
  stores or removes a query notifies the listener the component has subscribed, inside
  the call, and the handlers below include that.

  \<^verbatim>\<open>null\<close> and \<^verbatim>\<open>undefined\<close> are \<open>None\<close>. A query key is the list of its parts
  (\<^verbatim>\<open>["solution"]\<close> is \<open>[''solution'']\<close>). The values held by the cache are objects, which
  JavaScript counts as truthy: the problem statement pushed by the host, the solution
  object built by the success handler, and the debug data.
\<close>

record ProblemStatementData =
  problem_statement :: string

record solution =
  code :: "string option"
  thoughts :: "string list option"
  time_complexity :: "string option"
  space_complexity :: "string option"

datatype cache_value =
    ProblemStatementValue ProblemStatementData
  | SolutionValue solution
  | DebugValue string

type_synonym query_key = "string list"

type_synonym query_cache = "(query_key \<times> cache_value) list"

datatype view = ViewQueue | ViewSolutions | ViewDebug

record Screenshot =
  screenshot_id :: string
  path :: string
  preview :: string
  timestamp :: nat

record toast =
  toast_title :: string
  toast_description :: string
  toast_variant :: string

datatype timeout_callback = ClearIsResetting

record component_state =
  debugProcessing :: bool
  problemStatementData :: "cache_value option"
  activeSystemDesignSolutionTab :: string
  solutionData :: "string option"
  thoughtsData :: "string list option"
  timeComplexityData :: "string option"
  spaceComplexityData :: "string option"
  isResetting :: bool
  extraScreenshots :: "Screenshot list"
  queryCache :: query_cache
  currentView :: view
  toasts :: "toast list"
  pendingTimeouts :: "timeout_callback list"

subsection \<open>The query cache\<close>

text \<open>
  \<^verbatim>\<open>getQueryData(key)\<close> reads the value stored under exactly that key. Storing a value
  replaces the value of the query with that key or adds the query; removing takes a
  query out of the cache.
\<close>

definition getQueryData :: "query_cache \<Rightarrow> query_key \<Rightarrow> cache_value option" where
  "getQueryData c k = map_of c k"

fun cache_set :: "query_key \<Rightarrow> cache_value \<Rightarrow> query_cache \<Rightarrow> query_cache" where
  "cache_set k v [] = [(k, v)]"
| "cache_set k v (entry # rest) =
     (if fst entry = k then (k, v) # rest else entry # cache_set k v rest)"

definition cache_remove :: "query_key \<Rightarrow> query_cache \<Rightarrow> query_cache" where
  "cache_remove k c = filter (\<lambda>entry. fst entry \<noteq> k) c"

text \<open>
  The handlers read the entry under \<^verbatim>\<open>["solution"]\<close> through an unchecked cast to the
  solution object; a field that the object does not have reads as \<^verbatim>\<open>undefined\<close>.
\<close>

fun as_solution :: "cache_value \<Rightarrow> solution" where
  "as_solution (SolutionValue s) = s"
| "as_solution _ =
     \<lparr>code = None, thoughts = None, time_complexity = None, space_complexity = None\<rparr>"

text \<open>
  \<^verbatim>\<open>solution?.f || null\<close> yields \<^verbatim>\<open>null\<close> for every falsy field, so also for the empty
  string (an array is truthy, also when empty); \<^verbatim>\<open>solution?.f ?? null\<close> yields
  \<^verbatim>\<open>null\<close> only for \<^verbatim>\<open>null\<close> and \<^verbatim>\<open>undefined\<close>.
\<close>

fun string_or_null :: "string option \<Rightarrow> string option" where
  "string_or_null None = None"
| "string_or_null (Some s) = (if s = [] then None else Some s)"

definition field_or_null :: "(solution \<Rightarrow> string option) \<Rightarrow> cache_value option \<Rightarrow> string option" where
  "field_or_null f sol = (case sol of None \<Rightarrow> None | Some v \<Rightarrow> string_or_null (f (as_solution v)))"

definition field_nullish :: "(solution \<Rightarrow> 'a option) \<Rightarrow> cache_value option \<Rightarrow> 'a option" where
  "field_nullish f sol = (case sol of None \<Rightarrow> None | Some v \<Rightarrow> f (as_solution v))"

subsection \<open>The query cache subscription\<close>

text \<open>
  The listener registered with \<^verbatim>\<open>queryClient.getQueryCache().subscribe\<close> receives an
  event that may be undefined; \<^verbatim>\<open>event?.query.queryKey[0]\<close> is the first part of the
  key of the query the event is about (undefined for an empty key). Both tests of the
  listener run, one after the other.
\<close>

fun queryKey0 :: "query_key option \<Rightarrow> string option" where
  "queryKey0 None = None"
| "queryKey0 (Some []) = None"
| "queryKey0 (Some (k # ks)) = Some k"

definition onCacheEvent :: "query_key option \<Rightarrow> component_state \<Rightarrow> component_state" where
  "onCacheEvent event s =
     (let s1 = (if queryKey0 event = Some ''problem_statement''
                then s\<lparr>problemStatementData := getQueryData (queryCache s) [''problem_statement'']\<rparr>
                else s)
      in if queryKey0 event = Some ''solution''
         then (let sol = getQueryData (queryCache s1) [''solution'']
               in s1\<lparr>solutionData := field_nullish code sol,
                     thoughtsData := field_nullish thoughts sol,
                     timeComplexityData := field_nullish time_complexity sol,
                     spaceComplexityData := field_nullish space_complexity sol\<rparr>)
         else s1)"

subsection \<open>Calls of the query client\<close>

text \<open>
  \<^verbatim>\<open>queryClient.setQueryData(key, value)\<close> stores the value and the cache notifies the
  listener with an event for that query (for a new query it also notifies when the
  query is added, before the value is stored; what the listener assigns at the later
  notification is what lasts). \<^verbatim>\<open>queryClient.removeQueries({ queryKey })\<close>
  finds every query whose key starts with the given one (the filter is not exact) and
  removes them one after the other, the cache notifying the listener after each removal.
\<close>

definition setQueryData :: "query_key \<Rightarrow> cache_value \<Rightarrow> component_state \<Rightarrow> component_state" where
  "setQueryData k v s = onCacheEvent (Some k) (s\<lparr>queryCache := cache_set k v (queryCache s)\<rparr>)"

fun remove_each :: "query_key list \<Rightarrow> component_state \<Rightarrow> component_state" where
  "remove_each [] s = s"
| "remove_each (q # qs) s =
     remove_each qs (onCacheEvent (Some q) (s\<lparr>queryCache := cache_remove q (queryCache s)\<rparr>))"

definition removeQueries :: "query_key \<Rightarrow> component_state \<Rightarrow> component_state" where
  "removeQueries k s =
     remove_each (map fst (filter (\<lambda>entry. prefix k (fst entry)) (queryCache s))) s"

subsection \<open>Bridge event handlers\<close>

definition showToast :: "string \<Rightarrow> string \<Rightarrow> string \<Rightarrow> component_state \<Rightarrow> component_state" where
  "showToast title description variant s =
     s\<lparr>toasts := toasts s @
        [\<lparr>toast_title = title, toast_description = description, toast_variant = variant\<rparr>]\<rparr>"

text \<open>
  \<^verbatim>\<open>onResetView\<close>: sets the resetting flag, removes the queries under \<^verbatim>\<open>["solution"]\<close>
  and \<^verbatim>\<open>["new_solution"]\<close>, empties the extra screenshots and schedules the callback
  that clears the flag (\<^verbatim>\<open>setTimeout(..., 0)\<close>, which runs after the handler).
\<close>

definition onResetView :: "component_state \<Rightarrow> component_state" where
  "onResetView s =
     (let s1 = s\<lparr>isResetting := True\<rparr>;
          s2 = removeQueries [''solution''] s1;
          s3 = removeQueries [''new_solution''] s2;
          s4 = s3\<lparr>extraScreenshots := []\<rparr>
      in s4\<lparr>pendingTimeouts := pendingTimeouts s4 @ [ClearIsResetting]\<rparr>)"

fun runTimeout :: "timeout_callback \<Rightarrow> component_state \<Rightarrow> component_state" where
  "runTimeout ClearIsResetting s = s\<lparr>isResetting := False\<rparr>"

text \<open>\<^verbatim>\<open>onSolutionStart\<close>: every time processing starts, the four solution fields are reset.\<close>

definition onSolutionStart :: "component_state \<Rightarrow> component_state" where
  "onSolutionStart s =
     s\<lparr>solutionData := None,
       thoughtsData := None,
       timeComplexityData := None,
       spaceComplexityData := None\<rparr>"

text \<open>
  \<^verbatim>\<open>onSolutionError(error)\<close>: shows the toast, reads the cached solution, goes back to
  the queue view when there is none, and sets the four fields from the cached solution.
\<close>

definition onSolutionError :: "string \<Rightarrow> component_state \<Rightarrow> component_state" where
  "onSolutionError error s =
     (let s1 = showToast ''Processing Failed'' error ''error'' s;
          sol = getQueryData (queryCache s1) [''solution''];
          s2 = (if sol = None then s1\<lparr>currentView := ViewQueue\<rparr> else s1)
      in s2\<lparr>solutionData := field_or_null code sol,
            thoughtsData := field_nullish thoughts sol,
            timeComplexityData := field_or_null time_complexity sol,
            spaceComplexityData := field_or_null space_complexity sol\<rparr>)"

text \<open>\<^verbatim>\<open>onDebugError\<close>: shows the toast and stops the debug loader.\<close>

definition onDebugError :: "component_state \<Rightarrow> component_state" where
  "onDebugError s =
     (showToast ''Processing Failed'' ''There was an error debugging your code.'' ''error'' s)
       \<lparr>debugProcessing := False\<rparr>"

text \<open>
  \<^verbatim>\<open>onProblemExtracted(data)\<close> stores the problem statement in the cache.
  \<^verbatim>\<open>onSolutionSuccess(data)\<close> returns at once when there is no data; otherwise it
  stores the four fields of the data as the cached solution and then sets the four
  local fields from them. (It then fetches the screenshots, whose arrival is a later
  event.) \<^verbatim>\<open>onDebugStart\<close> and \<^verbatim>\<open>onDebugSuccess(data)\<close> set the debug loader and store
  the debug data.
\<close>

definition onProblemExtracted :: "ProblemStatementData \<Rightarrow> component_state \<Rightarrow> component_state" where
  "onProblemExtracted d s = setQueryData [''problem_statement''] (ProblemStatementValue d) s"

definition onSolutionSuccess :: "solution option \<Rightarrow> component_state \<Rightarrow> component_state" where
  "onSolutionSuccess received s =
     (case received of
        None \<Rightarrow> s
      | Some d \<Rightarrow>
          (let sol = \<lparr>code = code d, thoughts = thoughts d,
                      time_complexity = time_complexity d,
                      space_complexity = space_complexity d\<rparr>;
               s1 = setQueryData [''solution''] (SolutionValue sol) s
           in s1\<lparr>solutionData := string_or_null (code sol),
                  thoughtsData := thoughts sol,
                  timeComplexityData := string_or_null (time_complexity sol),
                  spaceComplexityData := string_or_null (space_complexity sol)\<rparr>))"

definition onDebugStart :: "component_state \<Rightarrow> component_state" where
  "onDebugStart s = s\<lparr>debugProcessing := True\<rparr>"

definition onDebugSuccess :: "cache_value \<Rightarrow> component_state \<Rightarrow> component_state" where
  "onDebugSuccess d s = (setQueryData [''new_solution''] d s)\<lparr>debugProcessing := False\<rparr>"

section \<open>Rendering\<close>

text \<open>
  What the component renders is a list of the sections it shows, in document order. The
  debug view replaces everything else while debug data is cached and the component is
  not resetting. \<^verbatim>\<open>solutionData && ...\<close> tests truthiness, so an empty string counts
  as no solution; the constant \<^verbatim>\<open>systemDesignSoltionData\<close> is an object and always
  truthy.

  The elements: the \<^verbatim>\<open>Debug\<close> view; the screenshot queue; the command bar; the
  problem statement section and the line "Generating solutions..."; the thoughts, the
  solution and the complexity sections; the tab bar, one button for each tab with its
  name and whether it is the active one; and the five tab contents, where the diagram
  content is the steps walkthrough beside the laid-out nodes and edges.
\<close>

definition TABS :: "string list" where
  "TABS = [''Description'', ''Requirements'', ''Diagram'', ''Database Schema'', ''Tradeoff'']"

datatype element =
    DebugEl
  | ScreenshotQueueEl
  | SolutionCommandsEl
  | ProblemStatementEl
  | GeneratingSolutionsEl
  | ThoughtsEl
  | SolutionEl
  | ComplexityEl
  | TabBarEl "(string \<times> bool) list"
  | DiagramEl
  | DescriptionEl
  | RequirementsEl
  | DatabaseSchemaEl
  | TradeOffEl

definition truthy :: "string option \<Rightarrow> bool" where
  "truthy v = (case v of None \<Rightarrow> False | Some s \<Rightarrow> s \<noteq> [])"

definition shown_if :: "bool \<Rightarrow> element list \<Rightarrow> element list" where
  "shown_if b els = (if b then els else [])"

definition render :: "string \<Rightarrow> component_state \<Rightarrow> element list" where
  "render currentInterviewMode s =
     (if \<not> isResetting s \<and> getQueryData (queryCache s) [''new_solution''] \<noteq> None
      then [DebugEl]
      else
        shown_if (truthy (solutionData s)) [ScreenshotQueueEl] @
        [SolutionCommandsEl] @
        shown_if (\<not> truthy (solutionData s) \<and> currentInterviewMode = ''Coding'')
          (ProblemStatementEl # shown_if (problemStatementData s \<noteq> None) [GeneratingSolutionsEl]) @
        shown_if (truthy (solutionData s) \<and> currentInterviewMode = ''Coding'')
          [ThoughtsEl, SolutionEl, ComplexityEl] @
        shown_if (currentInterviewMode = ''SystemDesign'')
          [TabBarEl (map (\<lambda>tab. (tab, activeSystemDesignSolutionTab s = tab)) TABS)] @
        shown_if (currentInterviewMode = ''SystemDesign'' \<and>
                  activeSystemDesignSolutionTab s = ''Diagram'') [DiagramEl] @
        shown_if (currentInterviewMode = ''SystemDesign'' \<and>
                  activeSystemDesignSolutionTab s = ''Description'') [DescriptionEl] @
        shown_if (currentInterviewMode = ''SystemDesign'' \<and>
                  activeSystemDesignSolutionTab s = ''Requirements'') [RequirementsEl] @
        shown_if (currentInterviewMode = ''SystemDesign'' \<and>
                  activeSystemDesignSolutionTab s = ''Database Schema'') [DatabaseSchemaEl] @
        shown_if (currentInterviewMode = ''SystemDesign'' \<and>
                  activeSystemDesignSolutionTab s = ''Tradeoff'') [TradeOffEl])"

text \<open>
  The values the state hooks start with, for a given cache and view, and the click on a
  tab button (there is one button for each entry of \<open>TABS\<close>).
\<close>

definition initial_state :: "query_cache \<Rightarrow> view \<Rightarrow> component_state" where
  "initial_state c v =
     \<lparr>debugProcessing = False,
      problemStatementData = None,
      activeSystemDesignSolutionTab = ''Diagram'',
      solutionData = None,
      thoughtsData = None,
      timeComplexityData = None,
      spaceComplexityData = None,
      isResetting = False,
      extraScreenshots = [],
      queryCache = c,
      currentView = v,
      toasts = [],
      pendingTimeouts = []\<rparr>"

definition setActiveSystemDesignSolutionTab :: "string \<Rightarrow> component_state \<Rightarrow> component_state" where
  "setActiveSystemDesignSolutionTab tab s = s\<lparr>activeSystemDesignSolutionTab := tab\<rparr>"

fun is_tab_content :: "element \<Rightarrow> bool" where
  "is_tab_content DiagramEl = True"
| "is_tab_content DescriptionEl = True"
| "is_tab_content RequirementsEl = True"
| "is_tab_content DatabaseSchemaEl = True"
| "is_tab_content TradeOffEl = True"
| "is_tab_content _ = False"

fun is_tab_bar :: "element \<Rightarrow> bool" where
  "is_tab_bar (TabBarEl _) = True"
| "is_tab_bar _ = False"

fun is_coding_section :: "element \<Rightarrow> bool" where
  "is_coding_section ProblemStatementEl = True"
| "is_coding_section GeneratingSolutionsEl = True"
| "is_coding_section ThoughtsEl = True"
| "is_coding_section SolutionEl = True"
| "is_coding_section ComplexityEl = True"
| "is_coding_section _ = False"

section \<open>Formatting a complexity\<close>

text \<open>
  \<^verbatim>\<open>formatComplexity\<close> tests its argument for falsiness first (\<^verbatim>\<open>null\<close> and the empty
  string), then searches it for the regular expression \<^verbatim>\<open>/O\([^)]+\)/i\<close>: a letter O
  of either case, an opening parenthesis, one or more characters other than a closing
  parenthesis, and a closing parenthesis. After the opening parenthesis the class
  \<^verbatim>\<open>[^)]+\<close> can only stop at a closing parenthesis or at the end of the input, so the
  expression matches there exactly when the longest run of other characters is not
  empty and a closing parenthesis follows it.
\<close>

definition class_plus_close :: "string \<Rightarrow> bool" where
  "class_plus_close cs =
     (takeWhile (\<lambda>c. c \<noteq> CHR '')'') cs \<noteq> [] \<and> dropWhile (\<lambda>c. c \<noteq> CHR '')'') cs \<noteq> [])"

fun match_at :: "string \<Rightarrow> bool" where
  "match_at (c # d # cs) =
     ((c = CHR ''O'' \<or> c = CHR ''o'') \<and> d = CHR ''('' \<and> class_plus_close cs)"
| "match_at _ = False"

fun bigO_match :: "string \<Rightarrow> bool" where
  "bigO_match [] = False"
| "bigO_match (c # cs) = (match_at (c # cs) \<or> bigO_match cs)"

definition formatComplexity :: "string option \<Rightarrow> string" where
  "formatComplexity complexity =
     (case complexity of
        None \<Rightarrow> ''O(n) - Linear time/space complexity''
      | Some s \<Rightarrow>
          if s = [] then ''O(n) - Linear time/space complexity''
          else if bigO_match s then s
          else ''O(n) - '' @ s)"

text \<open>
  The language of the regular expression, stated on the text itself: some occurrence of
  O or o, then \<open>(\<close>, a non-empty body free of \<open>)\<close>, then \<open>)\<close>.
\<close>

definition contains_bigO :: "string \<Rightarrow> bool" where
  "contains_bigO s =
     (\<exists>pre l body post.
        s = pre @ l # CHR ''('' # body @ CHR '')'' # post \<and>
        (l = CHR ''O'' \<or> l = CHR ''o'') \<and> body \<noteq> [] \<and> CHR '')'' \<notin> set body)"

section \<open>Diagram layout\<close>

text \<open>
  \<^verbatim>\<open>getLayoutedElements(nodes, edges, direction)\<close> hands the node ids, the edges and the
  direction to the external layout library and reads a centre back for every node. The
  library is a parameter of the model: a function from what the code feeds it (the ids,
  each with the fixed size; the source and target of every edge; the rank direction) to
  the outcome of \<^verbatim>\<open>dagre.layout\<close>, which is either the exception the library raised, and
  then \<^verbatim>\<open>getLayoutedElements\<close> ends with it, or the centre the library assigns to each
  id. Coordinates are JavaScript numbers, taken here as rationals: finite, with exact
  subtraction and comparison; a layout with a coordinate that is not a number is not
  represented.

  A node and an edge are extensible records: the fields the function never names are the
  extension, which the object spread \<^verbatim>\<open>...node\<close>, \<^verbatim>\<open>...edge\<close> carries over. The
  fields \<^verbatim>\<open>id\<close>, \<^verbatim>\<open>style\<close> and \<^verbatim>\<open>label\<close> carry the name of their object
  (\<open>node_id\<close>, \<open>edge_style\<close>, \<open>edge_label\<close>), and the direction \<^verbatim>\<open>'RL'\<close> is the
  constructor \<open>RL_dir\<close>, since the plain names are taken.
\<close>

datatype LayoutDirection = TB | BT | LR | RL_dir

datatype Position = Left | Top | Right | Bottom

datatype MarkerType = Arrow | ArrowClosed

record XYPosition =
  x_coord :: rat
  y_coord :: rat

record NodeData =
  label :: string

record NodeStyle =
  background :: string
  color :: string
  border :: string
  borderRadius :: nat
  fontWeight :: string
  padding :: nat

record Node =
  node_id :: string
  data :: NodeData
  position :: XYPosition
  sourcePosition :: "Position option"
  targetPosition :: "Position option"
  node_style :: "NodeStyle option"

record EdgeMarker =
  marker_type :: MarkerType
  marker_color :: string

record EdgeStyle =
  stroke :: string
  strokeWidth :: nat

record LabelStyle =
  fill :: string
  label_fontWeight :: nat
  transform :: string
  fontSize :: nat
  maxWidth :: nat
  whiteSpace :: string
  wordWrap :: string
  overflowWrap :: string
  width :: string

record LabelBgStyle =
  fillOpacity :: nat

record Edge =
  edge_id :: string
  source :: string
  target :: string
  edge_label :: "string option"
  markerEnd :: "EdgeMarker option"
  edge_style :: "EdgeStyle option"
  labelStyle :: "LabelStyle option"
  labelBgStyle :: "LabelBgStyle option"
  labelBgPadding :: "(nat \<times> nat) option"
  labelBgBorderRadius :: "nat option"

record FanoutTarget =
  targetId :: string
  target_x :: rat

record ('n, 'e) LayoutedElements =
  layoutedNodes :: "'n Node_scheme list"
  layoutedEdges :: "'e Edge_scheme list"

datatype js_error = TypeError | OtherError

type_synonym dagre_layout =
  "string list \<Rightarrow> (string \<times> string) list \<Rightarrow> LayoutDirection
     \<Rightarrow> js_error + (string \<Rightarrow> XYPosition)"

definition nodeWidth :: rat where
  "nodeWidth = 120"

definition nodeHeight :: rat where
  "nodeHeight = 60"

text \<open>
  \<^verbatim>\<open>nodeMap\<close> is a \<^verbatim>\<open>Map\<close>, filled while the nodes are mapped; a later node with the
  same id overwrites an earlier one.
\<close>

definition build_nodeMap :: "(string \<Rightarrow> XYPosition) \<Rightarrow> 'n Node_scheme list \<Rightarrow> (string \<rightharpoonup> XYPosition)" where
  "build_nodeMap dagreGraph nodes =
     foldl (\<lambda>m node. m(node_id node \<mapsto> dagreGraph (node_id node))) Map.empty nodes"

definition layout_node :: "(string \<Rightarrow> XYPosition) \<Rightarrow> bool \<Rightarrow> 'n Node_scheme \<Rightarrow> 'n Node_scheme" where
  "layout_node dagreGraph isHorizontal node =
     node\<lparr>position :=
            \<lparr>x_coord = x_coord (dagreGraph (node_id node)) - nodeWidth / 2,
             y_coord = y_coord (dagreGraph (node_id node)) - nodeHeight / 2\<rparr>,
          sourcePosition := Some (if isHorizontal then Right else Bottom),
          targetPosition := Some (if isHorizontal then Left else Top),
          node_style :=
            Some \<lparr>background = ''#06b6d4'', color = ''#ffffff'', border = ''2px solid #0891b2'',
                  borderRadius = 8, fontWeight = ''bold'', padding = 10\<rparr>\<rparr>"

text \<open>
  \<^verbatim>\<open>sourceToTargets\<close> is an object literal used as a dictionary. A source that has no
  entry of its own yet is looked up along the prototype chain: for the property names
  of \<^verbatim>\<open>Object.prototype\<close> the lookup finds an inherited, truthy value, the list is not
  initialised, and the call of \<^verbatim>\<open>push\<close> on that value raises a TypeError, which ends
  \<^verbatim>\<open>getLayoutedElements\<close>.
\<close>

definition object_prototype_keys :: "string list" where
  "object_prototype_keys =
     [''constructor'', ''__proto__'', ''hasOwnProperty'', ''isPrototypeOf'',
      ''propertyIsEnumerable'', ''toLocaleString'', ''toString'', ''valueOf'',
      ''__defineGetter__'', ''__defineSetter__'', ''__lookupGetter__'', ''__lookupSetter__'']"

definition fanout_entry :: "(string \<rightharpoonup> XYPosition) \<Rightarrow> 'e Edge_scheme \<Rightarrow> FanoutTarget" where
  "fanout_entry nodeMap edge =
     \<lparr>targetId = target edge,
      target_x = (case nodeMap (target edge) of None \<Rightarrow> 0 | Some p \<Rightarrow> x_coord p)\<rparr>"

definition add_fanout ::
  "(string \<rightharpoonup> XYPosition) \<Rightarrow> 'e Edge_scheme \<Rightarrow> (string \<rightharpoonup> FanoutTarget list)
     \<Rightarrow> js_error + (string \<rightharpoonup> FanoutTarget list)" where
  "add_fanout nodeMap edge sourceToTargets =
     (case sourceToTargets (source edge) of
        Some ts \<Rightarrow> Inr (sourceToTargets(source edge \<mapsto> ts @ [fanout_entry nodeMap edge]))
      | None \<Rightarrow>
          if source edge \<in> set object_prototype_keys then Inl TypeError
          else Inr (sourceToTargets(source edge \<mapsto> [fanout_entry nodeMap edge])))"

fun build_fanout ::
  "(string \<rightharpoonup> XYPosition) \<Rightarrow> 'e Edge_scheme list \<Rightarrow> (string \<rightharpoonup> FanoutTarget list)
     \<Rightarrow> js_error + (string \<rightharpoonup> FanoutTarget list)" where
  "build_fanout nodeMap [] sourceToTargets = Inr sourceToTargets"
| "build_fanout nodeMap (edge # rest) sourceToTargets =
     (case add_fanout nodeMap edge sourceToTargets of
        Inl err \<Rightarrow> Inl err
      | Inr sourceToTargets' \<Rightarrow> build_fanout nodeMap rest sourceToTargets')"

text \<open>
  \<^verbatim>\<open>findIndex\<close> returns the first index whose element passes the test, and \<open>-1\<close> when
  there is none. \<^verbatim>\<open>sort\<close> with the comparison \<^verbatim>\<open>a.x - b.x\<close> is a stable sort by
  \<^verbatim>\<open>x\<close>, as \<open>sort_key\<close> is.
\<close>

fun findIndex :: "('a \<Rightarrow> bool) \<Rightarrow> 'a list \<Rightarrow> int" where
  "findIndex p [] = - 1"
| "findIndex p (v # vs) =
     (if p v then 0 else (let i = findIndex p vs in if i = - 1 then - 1 else i + 1))"

definition label_transform ::
  "(string \<rightharpoonup> XYPosition) \<Rightarrow> (string \<rightharpoonup> FanoutTarget list) \<Rightarrow> LayoutDirection
     \<Rightarrow> 'e Edge_scheme \<Rightarrow> string" where
  "label_transform nodeMap sourceToTargets direction edge =
     (case (nodeMap (source edge), nodeMap (target edge)) of
        (Some sourcePos, Some targetPos) \<Rightarrow>
          if direction = TB then
            (let fanout = (case sourceToTargets (source edge) of None \<Rightarrow> [] | Some ts \<Rightarrow> ts)
             in if 1 < length fanout then
                  (let sorted = sort_key target_x fanout;
                       index = findIndex (\<lambda>t. targetId t = target edge) sorted
                   in if index = 0 then ''translate(-100px, -16px)''
                      else if index = int (length sorted) - 1 then ''translate(100px, -16px)''
                      else ''translate(0px, -20px)'')
                else if x_coord sourcePos < x_coord targetPos then ''translate(-100px, -16px)''
                else if x_coord targetPos < x_coord sourcePos then ''translate(100px, -16px)''
                else ''translate(0px, -16px)'')
          else ''translate(0px, -16px)''
      | _ \<Rightarrow> ''translate(0px, -16px)'')"

definition layout_edge ::
  "(string \<rightharpoonup> XYPosition) \<Rightarrow> (string \<rightharpoonup> FanoutTarget list) \<Rightarrow> LayoutDirection
     \<Rightarrow> 'e Edge_scheme \<Rightarrow> 'e Edge_scheme" where
  "layout_edge nodeMap sourceToTargets direction edge =
     edge\<lparr>markerEnd := Some \<lparr>marker_type = ArrowClosed, marker_color = ''#ec4899''\<rparr>,
          edge_label := Some (case edge_label edge of None \<Rightarrow> [] | Some l \<Rightarrow> l),
          edge_style := Some \<lparr>stroke = ''#ec4899'', strokeWidth = 2\<rparr>,
          labelStyle :=
            Some \<lparr>fill = ''#fef9c3'', label_fontWeight = 600,
                  transform = label_transform nodeMap sourceToTargets direction edge,
                  fontSize = 14, maxWidth = 50, whiteSpace = ''normal'',
                  wordWrap = ''break-word'', overflowWrap = ''break-word'', width = ''50px''\<rparr>,
          labelBgStyle := Some \<lparr>fillOpacity = 0\<rparr>,
          labelBgPadding := Some (4, 2),
          labelBgBorderRadius := Some 4\<rparr>"

definition dagre_centres ::
  "dagre_layout \<Rightarrow> 'n Node_scheme list \<Rightarrow> 'e Edge_scheme list \<Rightarrow> LayoutDirection
     \<Rightarrow> js_error + (string \<Rightarrow> XYPosition)" where
  "dagre_centres dagre nodes edges direction =
     dagre (map node_id nodes) (map (\<lambda>edge. (source edge, target edge)) edges) direction"

definition getLayoutedElements ::
  "dagre_layout \<Rightarrow> 'n Node_scheme list \<Rightarrow> 'e Edge_scheme list \<Rightarrow> LayoutDirection
     \<Rightarrow> js_error + ('n, 'e) LayoutedElements" where
  "getLayoutedElements dagre nodes edges direction =
     (let isHorizontal = (direction = LR \<or> direction = RL_dir)
      in case dagre_centres dagre nodes edges direction of
           Inl err \<Rightarrow> Inl err
         | Inr dagreGraph \<Rightarrow>
             (let nodeMap = build_nodeMap dagreGraph nodes;
                  laidNodes = map (layout_node dagreGraph isHorizontal) nodes
              in case build_fanout nodeMap edges Map.empty of
                   Inl err \<Rightarrow> Inl err
                 | Inr sourceToTargets \<Rightarrow>
                     Inr \<lparr>layoutedNodes = laidNodes,
                          layoutedEdges =
                            map (layout_edge nodeMap sourceToTargets direction) edges\<rparr>))"

text \<open>
  The edges that leave a node, in the order of the edge list: the node is a fan-out
  point when there is more than one.
\<close>

definition outgoing :: "'e Edge_scheme list \<Rightarrow> string \<Rightarrow> 'e Edge_scheme list" where
  "outgoing edges s = filter (\<lambda>edge. source edge = s) edges"

text \<open>
  The targets of the edges that leave a node, sorted by the x-coordinate of their centre
  in a layout; targets with the same x-coordinate stay in the order of the edge list.
\<close>

definition sorted_targets :: "(string \<Rightarrow> XYPosition) \<Rightarrow> 'e Edge_scheme list \<Rightarrow> string \<Rightarrow> string list" where
  "sorted_targets centres edges s =
     sort_key (\<lambda>t. x_coord (centres t)) (map target (outgoing edges s))"

subsection \<open>The diagram of the component\<close>

text \<open>
  The nodes and edges of \<^verbatim>\<open>systemDesignSoltionData\<close>, which the component lays out with
  the default direction \<^verbatim>\<open>'TB'\<close>.
\<close>

definition mk_node :: "string \<Rightarrow> string \<Rightarrow> rat \<Rightarrow> rat \<Rightarrow> Node" where
  "mk_node i l px py =
     \<lparr>node_id = i, data = \<lparr>label = l\<rparr>, position = \<lparr>x_coord = px, y_coord = py\<rparr>,
      sourcePosition = None, targetPosition = None, node_style = None\<rparr>"

definition mk_edge :: "string \<Rightarrow> string \<Rightarrow> string \<Rightarrow> string \<Rightarrow> Edge" where
  "mk_edge i s t l =
     \<lparr>edge_id = i, source = s, target = t, edge_label = Some l, markerEnd = None,
      edge_style = None, labelStyle = None, labelBgStyle = None, labelBgPadding = None,
      labelBgBorderRadius = None\<rparr>"

definition systemDesign_nodes :: "Node list" where
  "systemDesign_nodes =
     [mk_node ''1'' ''API Gateway'' 0 0,
      mk_node ''2'' ''Upload Service'' 200 0,
      mk_node ''3'' ''File Storage (S3)'' 400 (- 100),
      mk_node ''4'' ''Submission Metadata DB'' 400 100,
      mk_node ''5'' ''Scan Orchestrator'' 600 0,
      mk_node ''6'' ''Engine A (AV)'' 800 (- 150),
      mk_node ''7'' ''Engine B (Static)'' 800 0,
      mk_node ''8'' ''Engine C (Sandbox)'' 800 150,
      mk_node ''9'' ''Result Aggregator'' 1000 0,
      mk_node ''10'' ''Scan Result DB'' 1200 0,
      mk_node ''11'' ''Search & Query API'' 1400 0]"

definition systemDesign_edges :: "Edge list" where
  "systemDesign_edges =
     [mk_edge ''e1-2'' ''1'' ''2'' ''Submit file or URL'',
      mk_edge ''e2-3'' ''2'' ''3'' ''Store binary'',
      mk_edge ''e2-4'' ''2'' ''4'' ''Save metadata'',
      mk_edge ''e4-5'' ''4'' ''5'' ''Queue scan job'',
      mk_edge ''e5-6'' ''5'' ''6'' ''Dispatch to AV engine'',
      mk_edge ''e5-7'' ''5'' ''7'' ''Dispatch to static engine'',
      mk_edge ''e5-8'' ''5'' ''8'' ''Dispatch to sandbox engine'',
      mk_edge ''e6-9'' ''6'' ''9'' ''Return scan result'',
      mk_edge ''e7-9'' ''7'' ''9'' ''Return scan result'',
      mk_edge ''e8-9'' ''8'' ''9'' ''Return scan result'',
      mk_edge ''e9-10'' ''9'' ''10'' ''Persist aggregated result'',
      mk_edge ''e10-11'' ''10'' ''11'' ''Serve query'']"

text \<open>
  A layout to run the model on: one centre for each of the eleven ids, ranked from top
  to bottom, the three engines side by side. Any other function would do; the theorems
  hold for every layout library.
\<close>

definition sample_centres :: "(string \<times> XYPosition) list" where
  "sample_centres =
     [(''1'', \<lparr>x_coord = 280, y_coord = 50\<rparr>),
      (''2'', \<lparr>x_coord = 280, y_coord = 210\<rparr>),
      (''3'', \<lparr>x_coord = 180, y_coord = 370\<rparr>),
      (''4'', \<lparr>x_coord = 380, y_coord = 370\<rparr>),
      (''5'', \<lparr>x_coord = 280, y_coord = 530\<rparr>),
      (''6'', \<lparr>x_coord = 80, y_coord = 690\<rparr>),
      (''7'', \<lparr>x_coord = 280, y_coord = 690\<rparr>),
      (''8'', \<lparr>x_coord = 480, y_coord = 690\<rparr>),
      (''9'', \<lparr>x_coord = 280, y_coord = 850\<rparr>),
      (''10'', \<lparr>x_coord = 280, y_coord = 1010\<rparr>),
      (''11'', \<lparr>x_coord = 280, y_coord = 1170\<rparr>)]"

definition sample_centre :: "string \<Rightarrow> XYPosition" where
  "sample_centre v =
     (case map_of sample_centres v of
        Some p \<Rightarrow> p
      | None \<Rightarrow> \<lparr>x_coord = 0, y_coord = 0\<rparr>)"

definition sample_dagre :: dagre_layout where
  "sample_dagre ids es direction = Inr sample_centre"

text \<open>
  The label transform of every returned edge (\<^verbatim>\<open>edge.labelStyle.transform\<close>) and the
  returned nodes; there are none when the function raised.
\<close>

definition label_transforms :: "js_error + ('n, 'e) LayoutedElements \<Rightarrow> string option list" where
  "label_transforms result =
     (case result of
        Inl err \<Rightarrow> []
      | Inr r \<Rightarrow> map (\<lambda>edge. map_option transform (labelStyle edge)) (layoutedEdges r))"

definition returned_nodes :: "js_error + ('n, 'e) LayoutedElements \<Rightarrow> 'n Node_scheme list" where
  "returned_nodes result = (case result of Inl err \<Rightarrow> [] | Inr r \<Rightarrow> layoutedNodes r)"

definition returned_edges :: "js_error + ('n, 'e) LayoutedElements \<Rightarrow> 'e Edge_scheme list" where
  "returned_edges result = (case result of Inl err \<Rightarrow> [] | Inr r \<Rightarrow> layoutedEdges r)"

text \<open>
  Variations of the diagram: a second edge from the orchestrator to the sandbox engine,
  and an edge to a node that is not in the node list.
\<close>

definition parallel_edges :: "Edge list" where
  "parallel_edges = systemDesign_edges @ [mk_edge ''e5-8-retry'' ''5'' ''8'' ''Retry in sandbox'']"

definition dangling_edges :: "Edge list" where
  "dangling_edges = systemDesign_edges @ [mk_edge ''e5-12'' ''5'' ''12'' ''Notify'']"

text \<open>
  A fan-out with a tie: three edges from \<open>s\<close> to \<open>p\<close>, \<open>q\<close> and \<open>r\<close>, whose centres
  have the x-coordinates 70, 50 and 50.
\<close>

definition tie_nodes :: "Node list" where
  "tie_nodes = [mk_node ''s'' ''S'' 0 0, mk_node ''p'' ''P'' 0 0, mk_node ''q'' ''Q'' 0 0,
                mk_node ''r'' ''R'' 0 0]"

definition tie_edges :: "Edge list" where
  "tie_edges = [mk_edge ''s-p'' ''s'' ''p'' ''to p'', mk_edge ''s-q'' ''s'' ''q'' ''to q'',
                mk_edge ''s-r'' ''s'' ''r'' ''to r'']"

definition tie_centre :: "string \<Rightarrow> XYPosition" where
  "tie_centre v =
     (if v = ''s'' then \<lparr>x_coord = 60, y_coord = 50\<rparr>
      else if v = ''p'' then \<lparr>x_coord = 70, y_coord = 210\<rparr>
      else \<lparr>x_coord = 50, y_coord = 210\<rparr>)"

definition tie_dagre :: dagre_layout where
  "tie_dagre ids es direction = Inr tie_centre"

section \<open>States to run the handlers on\<close>

text \<open>
  The component as first mounted with an empty cache; the component after a problem
  was extracted, a solution arrived and a new run has started (the solution is cached,
  the local fields are null again); and the component after a debug run succeeded.
\<close>

definition first_run_state :: component_state where
  "first_run_state = initial_state [] ViewSolutions"

definition cached_solution :: solution where
  "cached_solution =
     \<lparr>code = Some ''return 1'', thoughts = Some [''constant''],
      time_complexity = Some ''O(1)'', space_complexity = Some []\<rparr>"

definition restarted_state :: component_state where
  "restarted_state =
     onSolutionStart
       (onSolutionSuccess (Some cached_solution)
          (onProblemExtracted \<lparr>problem_statement = ''Two Sum''\<rparr> first_run_state))"

definition debug_state :: component_state where
  "debug_state = onDebugSuccess (DebugValue ''fixed'') (onDebugStart first_run_state)"

section \<open>Properties of the event handlers\<close>

lemmas state_eval =
  first_run_state_def restarted_state_def debug_state_def cached_solution_def initial_state_def
  onSolutionStart_def onSolutionSuccess_def onProblemExtracted_def onDebugStart_def
  onDebugSuccess_def setQueryData_def onCacheEvent_def getQueryData_def Let_def

subsection \<open>The cache and its notifications\<close>

lemma getQueryData_cache_set:
  "getQueryData (cache_set k v c) q = (if q = k then Some v else getQueryData c q)"
  by (induction c) (auto simp add: getQueryData_def)

lemma map_of_filter_keys:
  "map_of (filter (\<lambda>entry. P (fst entry)) c) q = (if P q then map_of c q else None)"
  by (induction c) auto

lemma onCacheEvent_keeps:
  "queryCache (onCacheEvent event s) = queryCache s"
  "extraScreenshots (onCacheEvent event s) = extraScreenshots s"
  "isResetting (onCacheEvent event s) = isResetting s"
  "pendingTimeouts (onCacheEvent event s) = pendingTimeouts s"
  "currentView (onCacheEvent event s) = currentView s"
  "toasts (onCacheEvent event s) = toasts s"
  "debugProcessing (onCacheEvent event s) = debugProcessing s"
  "activeSystemDesignSolutionTab (onCacheEvent event s) = activeSystemDesignSolutionTab s"
  by (simp_all add: onCacheEvent_def Let_def)

lemma onCacheEvent_keeps_problem:
  "queryKey0 event \<noteq> Some ''problem_statement'' \<Longrightarrow>
   problemStatementData (onCacheEvent event s) = problemStatementData s"
  by (simp add: onCacheEvent_def Let_def)

lemma remove_each_cache:
  "queryCache (remove_each qs s) = filter (\<lambda>entry. fst entry \<notin> set qs) (queryCache s)"
proof (induction qs arbitrary: s)
  case Nil
  show ?case by simp
next
  case (Cons q qs)
  have "filter (\<lambda>entry. fst entry \<notin> set qs) (cache_remove q c) =
      filter (\<lambda>entry. fst entry \<notin> set (q # qs)) c" for c :: query_cache
    by (induction c) (auto simp add: cache_remove_def)
  then show ?case
    by (simp add: Cons.IH onCacheEvent_keeps)
qed

lemma remove_each_keeps:
  "extraScreenshots (remove_each qs s) = extraScreenshots s"
  "isResetting (remove_each qs s) = isResetting s"
  "pendingTimeouts (remove_each qs s) = pendingTimeouts s"
  "currentView (remove_each qs s) = currentView s"
  "toasts (remove_each qs s) = toasts s"
  "debugProcessing (remove_each qs s) = debugProcessing s"
  "activeSystemDesignSolutionTab (remove_each qs s) = activeSystemDesignSolutionTab s"
  by (induction qs arbitrary: s) (simp_all add: onCacheEvent_keeps)

lemma remove_each_keeps_problem:
  "\<forall>q\<in>set qs. queryKey0 (Some q) \<noteq> Some ''problem_statement'' \<Longrightarrow>
   problemStatementData (remove_each qs s) = problemStatementData s"
  by (induction qs arbitrary: s) (simp_all add: onCacheEvent_keeps_problem)

lemma removeQueries_cache:
  "getQueryData (queryCache (removeQueries k s)) q =
     (if prefix k q then None else getQueryData (queryCache s) q)"
proof -
  define qs where "qs = map fst (filter (\<lambda>entry. prefix k (fst entry)) (queryCache s))"
  have mem: "q \<in> set qs \<longleftrightarrow> prefix k q \<and> q \<in> fst ` set (queryCache s)"
    unfolding qs_def by auto
  have absent: "map_of (queryCache s) q = None" if "q \<notin> fst ` set (queryCache s)"
    using that by (simp add: map_of_eq_None_iff)
  have "queryCache (removeQueries k s) = filter (\<lambda>entry. fst entry \<notin> set qs) (queryCache s)"
    by (simp add: removeQueries_def remove_each_cache qs_def)
  then have "getQueryData (queryCache (removeQueries k s)) q =
      (if q \<notin> set qs then map_of (queryCache s) q else None)"
    by (simp add: getQueryData_def map_of_filter_keys [of "\<lambda>x. x \<notin> set qs"])
  also have "\<dots> = (if prefix k q then None else map_of (queryCache s) q)"
    using mem absent by auto
  finally show ?thesis
    by (simp add: getQueryData_def)
qed

lemma removeQueries_keeps:
  "extraScreenshots (removeQueries k s) = extraScreenshots s"
  "isResetting (removeQueries k s) = isResetting s"
  "pendingTimeouts (removeQueries k s) = pendingTimeouts s"
  "currentView (removeQueries k s) = currentView s"
  "toasts (removeQueries k s) = toasts s"
  "debugProcessing (removeQueries k s) = debugProcessing s"
  "activeSystemDesignSolutionTab (removeQueries k s) = activeSystemDesignSolutionTab s"
  by (simp_all add: removeQueries_def remove_each_keeps)

lemma removeQueries_keeps_problem:
  assumes "x \<noteq> ''problem_statement''"
  shows "problemStatementData (removeQueries (x # ks) s) = problemStatementData s"
proof -
  have "queryKey0 (Some q) = Some x" if "prefix (x # ks) q" for q
    using that by (cases q) simp_all
  with assms show ?thesis
    by (auto simp add: removeQueries_def intro!: remove_each_keeps_problem)
qed

text \<open>
  When the last of several queries is removed, the listener reads the cache without any
  of them: if a query under \<^verbatim>\<open>["solution"]\<close> was cached, the reset leaves the four local
  solution fields null.
\<close>

lemma remove_each_solution_fields:
  assumes "qs \<noteq> []" and "\<forall>q\<in>set qs. queryKey0 (Some q) = Some ''solution''"
  shows "solutionData (remove_each qs s) =
           field_nullish code (getQueryData (queryCache (remove_each qs s)) [''solution'']) \<and>
         thoughtsData (remove_each qs s) =
           field_nullish thoughts (getQueryData (queryCache (remove_each qs s)) [''solution'']) \<and>
         timeComplexityData (remove_each qs s) =
           field_nullish time_complexity (getQueryData (queryCache (remove_each qs s)) [''solution'']) \<and>
         spaceComplexityData (remove_each qs s) =
           field_nullish space_complexity (getQueryData (queryCache (remove_each qs s)) [''solution''])"
  using assms
proof (induction qs arbitrary: s)
  case Nil
  then show ?case by simp
next
  case (Cons q qs)
  show ?case
  proof (cases qs)
    case Nil
    with Cons.prems show ?thesis
      by (simp add: onCacheEvent_def Let_def)
  next
    case (Cons q' qs')
    with Cons.prems Cons.IH show ?thesis by simp
  qed
qed

lemma remove_each_keeps_solution_fields:
  "\<forall>q\<in>set qs. queryKey0 (Some q) \<noteq> Some ''solution'' \<Longrightarrow>
   solutionData (remove_each qs s) = solutionData s \<and>
   thoughtsData (remove_each qs s) = thoughtsData s \<and>
   timeComplexityData (remove_each qs s) = timeComplexityData s \<and>
   spaceComplexityData (remove_each qs s) = spaceComplexityData s"
  by (induction qs arbitrary: s) (simp_all add: onCacheEvent_def Let_def)

lemma onResetView_clears_local_fields:
  assumes "\<exists>q. prefix [''solution''] q \<and> getQueryData (queryCache s) q \<noteq> None"
  shows "solutionData (onResetView s) = None \<and> thoughtsData (onResetView s) = None \<and>
         timeComplexityData (onResetView s) = None \<and> spaceComplexityData (onResetView s) = None"
proof -
  let ?s1 = "s\<lparr>isResetting := True\<rparr>"
  let ?qs = "map fst (filter (\<lambda>entry. prefix [''solution''] (fst entry)) (queryCache ?s1))"
  let ?qs' = "\<lambda>t. map fst (filter (\<lambda>entry. prefix [''new_solution''] (fst entry)) (queryCache t))"
  from assms obtain q where q: "prefix [''solution''] q" "map_of (queryCache s) q \<noteq> None"
    by (auto simp add: getQueryData_def)
  then have "q \<in> fst ` set (queryCache s)"
    by (simp add: map_of_eq_None_iff)
  with q(1) have ne: "?qs \<noteq> []" by (auto simp add: filter_empty_conv)
  have heads: "\<forall>q\<in>set ?qs. queryKey0 (Some q) = Some ''solution''"
  proof
    fix q assume "q \<in> set ?qs"
    then have "prefix [''solution''] q" by auto
    then show "queryKey0 (Some q) = Some ''solution''" by (cases q) simp_all
  qed
  have gone: "getQueryData (queryCache (removeQueries [''solution''] ?s1)) [''solution''] = None"
    by (simp add: removeQueries_cache)
  from remove_each_solution_fields [OF ne heads, of ?s1] gone
  have a: "solutionData (removeQueries [''solution''] ?s1) = None \<and>
      thoughtsData (removeQueries [''solution''] ?s1) = None \<and>
      timeComplexityData (removeQueries [''solution''] ?s1) = None \<and>
      spaceComplexityData (removeQueries [''solution''] ?s1) = None"
    by (simp add: removeQueries_def field_nullish_def)
  have heads': "\<forall>q\<in>set (?qs' t). queryKey0 (Some q) \<noteq> Some ''solution''" for t
  proof
    fix q assume "q \<in> set (?qs' t)"
    then have "prefix [''new_solution''] q" by auto
    then show "queryKey0 (Some q) \<noteq> Some ''solution''" by (cases q) auto
  qed
  define s2 where "s2 = removeQueries [''solution''] ?s1"
  have b: "solutionData (removeQueries [''new_solution''] s2) = solutionData s2 \<and>
      thoughtsData (removeQueries [''new_solution''] s2) = thoughtsData s2 \<and>
      timeComplexityData (removeQueries [''new_solution''] s2) = timeComplexityData s2 \<and>
      spaceComplexityData (removeQueries [''new_solution''] s2) = spaceComplexityData s2"
    using remove_each_keeps_solution_fields [OF heads', of s2 s2]
    by (simp add: removeQueries_def)
  have "onResetView s =
      (removeQueries [''new_solution''] s2)
        \<lparr>extraScreenshots := [],
         pendingTimeouts := pendingTimeouts (removeQueries [''new_solution''] s2) @ [ClearIsResetting]\<rparr>"
    by (simp add: onResetView_def Let_def s2_def)
  with a b show ?thesis
    by (simp add: s2_def)
qed

lemma onProblemExtracted_sets_local:
  "problemStatementData (onProblemExtracted d s) = Some (ProblemStatementValue d) \<and>
   getQueryData (queryCache (onProblemExtracted d s)) [''problem_statement''] =
     Some (ProblemStatementValue d)"
  by (simp add: onProblemExtracted_def setQueryData_def onCacheEvent_def Let_def
      getQueryData_cache_set)

subsection \<open>The handlers\<close>

text \<open>
  C7. After the solution-start handler has run, the four local solution fields
  (\<open>solutionData\<close>, \<open>thoughtsData\<close>, \<open>timeComplexityData\<close>, \<open>spaceComplexityData\<close>) are all
  null, whatever they held before.
\<close>

theorem onSolutionStart_clears_fields:
  "solutionData (onSolutionStart s) = None \<and>
   thoughtsData (onSolutionStart s) = None \<and>
   timeComplexityData (onSolutionStart s) = None \<and>
   spaceComplexityData (onSolutionStart s) = None"
  by (simp add: onSolutionStart_def)

text \<open>
  C3. In every state, after the reset-view handler has run the query cache has no entry
  under \<^verbatim>\<open>["solution"]\<close> and none under \<^verbatim>\<open>["new_solution"]\<close>, and the list of extra
  screenshots is empty.
\<close>

theorem onResetView_clears:
  "getQueryData (queryCache (onResetView s)) [''solution''] = None \<and>
   getQueryData (queryCache (onResetView s)) [''new_solution''] = None \<and>
   extraScreenshots (onResetView s) = []"
  by (simp add: onResetView_def Let_def removeQueries_cache)

text \<open>
  C10. The reset-view handler leaves the entry under \<^verbatim>\<open>["problem_statement"]\<close> as it
  was, so a cached problem statement is still cached after a reset, and it leaves
  \<open>problemStatementData\<close> as it was, while the solution and the debug data are removed
  from the cache.
\<close>

theorem onResetView_keeps_problem_statement:
  "getQueryData (queryCache (onResetView s)) [''problem_statement''] =
     getQueryData (queryCache s) [''problem_statement''] \<and>
   problemStatementData (onResetView s) = problemStatementData s \<and>
   getQueryData (queryCache (onResetView s)) [''solution''] = None \<and>
   getQueryData (queryCache (onResetView s)) [''new_solution''] = None"
  by (simp add: onResetView_def Let_def removeQueries_cache removeQueries_keeps_problem)

theorem onResetView_keeps_problem_statement_witness:
  "getQueryData (queryCache (onResetView restarted_state)) [''problem_statement''] =
     Some (ProblemStatementValue \<lparr>problem_statement = ''Two Sum''\<rparr>) \<and>
   getQueryData (queryCache (onResetView restarted_state)) [''solution''] = None"
  using onResetView_keeps_problem_statement [of restarted_state]
  by (simp add: state_eval)

text \<open>
  C2, as the code has it. The solution-error handler shows an error toast and leaves the
  query cache as it was. When no solution is cached it switches the view to the queue
  and the four local solution fields become null; when a solution is cached the view
  stays and the four fields are set from the cached solution, an empty string counting
  as null. The debug-error handler shows an error toast and clears the debug-processing
  flag, and changes nothing else: the four fields, the cache and the view stay.
\<close>

theorem error_handlers_effect:
  "queryCache (onSolutionError error s) = queryCache s \<and>
   toasts (onSolutionError error s) =
     toasts s @
       [\<lparr>toast_title = ''Processing Failed'', toast_description = error,
         toast_variant = ''error''\<rparr>] \<and>
   (getQueryData (queryCache s) [''solution''] = None \<longrightarrow>
      currentView (onSolutionError error s) = ViewQueue \<and>
      solutionData (onSolutionError error s) = None \<and>
      thoughtsData (onSolutionError error s) = None \<and>
      timeComplexityData (onSolutionError error s) = None \<and>
      spaceComplexityData (onSolutionError error s) = None) \<and>
   (getQueryData (queryCache s) [''solution''] = Some (SolutionValue sol) \<longrightarrow>
      currentView (onSolutionError error s) = currentView s \<and>
      solutionData (onSolutionError error s) = string_or_null (code sol) \<and>
      thoughtsData (onSolutionError error s) = thoughts sol \<and>
      timeComplexityData (onSolutionError error s) = string_or_null (time_complexity sol) \<and>
      spaceComplexityData (onSolutionError error s) = string_or_null (space_complexity sol)) \<and>
   onDebugError s =
     s\<lparr>toasts :=
         toasts s @
           [\<lparr>toast_title = ''Processing Failed'',
             toast_description = ''There was an error debugging your code.'',
             toast_variant = ''error''\<rparr>],
       debugProcessing := False\<rparr>"
  by (simp add: onSolutionError_def onDebugError_def showToast_def getQueryData_def Let_def
      field_or_null_def field_nullish_def)

theorem error_handlers_effect_witness:
  "currentView (onSolutionError ''timeout'' first_run_state) = ViewQueue \<and>
   solutionData (onSolutionError ''timeout'' restarted_state) = Some ''return 1'' \<and>
   spaceComplexityData (onSolutionError ''timeout'' restarted_state) = None"
  using error_handlers_effect [of "''timeout''" first_run_state]
    error_handlers_effect [of "''timeout''" restarted_state cached_solution]
  by (simp add: state_eval)

text \<open>
  The solution-error handler does change the state: on a first run that fails, the view
  goes from the solutions to the queue; after a restart, the solution field goes from
  null back to the cached code.
\<close>

theorem error_handler_changes_state:
  "currentView first_run_state = ViewSolutions \<and>
   currentView (onSolutionError ''timeout'' first_run_state) = ViewQueue \<and>
   solutionData restarted_state = None \<and>
   solutionData (onSolutionError ''timeout'' restarted_state) = Some ''return 1''"
  by (simp add: state_eval onSolutionError_def showToast_def field_or_null_def field_nullish_def)

text \<open>
  C4. For a cache event whose query key starts with \<^verbatim>\<open>"solution"\<close>, the listener sets the
  four local fields to the \<open>code\<close>, \<open>thoughts\<close>, \<open>time_complexity\<close> and \<open>space_complexity\<close>
  of the cached solution, null where the field is absent, and all four to null when
  there is no cached solution. For an event whose key starts with
  \<^verbatim>\<open>"problem_statement"\<close> it sets \<open>problemStatementData\<close> to the cached problem statement,
  null when there is none.
\<close>

theorem onCacheEvent_effect:
  "(getQueryData (queryCache s) [''solution''] = None \<longrightarrow>
      solutionData (onCacheEvent (Some (''solution'' # rest)) s) = None \<and>
      thoughtsData (onCacheEvent (Some (''solution'' # rest)) s) = None \<and>
      timeComplexityData (onCacheEvent (Some (''solution'' # rest)) s) = None \<and>
      spaceComplexityData (onCacheEvent (Some (''solution'' # rest)) s) = None) \<and>
   (getQueryData (queryCache s) [''solution''] = Some (SolutionValue sol) \<longrightarrow>
      solutionData (onCacheEvent (Some (''solution'' # rest)) s) = code sol \<and>
      thoughtsData (onCacheEvent (Some (''solution'' # rest)) s) = thoughts sol \<and>
      timeComplexityData (onCacheEvent (Some (''solution'' # rest)) s) = time_complexity sol \<and>
      spaceComplexityData (onCacheEvent (Some (''solution'' # rest)) s) = space_complexity sol) \<and>
   problemStatementData (onCacheEvent (Some (''problem_statement'' # rest)) s) =
     getQueryData (queryCache s) [''problem_statement'']"
  by (simp add: onCacheEvent_def Let_def field_nullish_def)

theorem onCacheEvent_effect_witness:
  "solutionData (onCacheEvent (Some [''solution'']) restarted_state) = Some ''return 1'' \<and>
   spaceComplexityData (onCacheEvent (Some [''solution'']) restarted_state) = Some [] \<and>
   thoughtsData (onCacheEvent (Some [''solution'']) first_run_state) = None \<and>
   problemStatementData (onCacheEvent (Some [''problem_statement'']) restarted_state) =
     Some (ProblemStatementValue \<lparr>problem_statement = ''Two Sum''\<rparr>)"
  using onCacheEvent_effect [of restarted_state "[]" cached_solution]
    onCacheEvent_effect [of first_run_state "[]"]
  by (simp add: state_eval)

section \<open>Properties of rendering\<close>

lemma render_debug_only:
  "\<not> isResetting s \<Longrightarrow> getQueryData (queryCache s) [''new_solution''] \<noteq> None \<Longrightarrow>
   render currentInterviewMode s = [DebugEl]"
  by (simp add: render_def)

lemma tab_click_stays_in_TABS:
  "tab \<in> set TABS \<Longrightarrow>
   activeSystemDesignSolutionTab (setActiveSystemDesignSolutionTab tab s) \<in> set TABS"
  by (simp add: setActiveSystemDesignSolutionTab_def)

text \<open>
  C5, as the code has it. Whenever the debug view is not shown (the component is
  resetting, or no debug data is cached): in the mode \<^verbatim>\<open>SystemDesign\<close> the component
  renders one tab bar with the five tabs Description, Requirements, Diagram, Database
  Schema and Tradeoff, no coding section, and for each of these five values of the
  active tab exactly one tab content, namely the description, the requirements, the
  diagram, the database schema or the trade-offs; in the mode \<^verbatim>\<open>Coding\<close> it renders no
  tab bar and no tab content but the coding sections: thoughts, solution and complexity
  when there is a solution, the problem statement otherwise. The active tab starts as
  Diagram.
\<close>

theorem render_modes:
  assumes "isResetting s \<or> getQueryData (queryCache s) [''new_solution''] = None"
  shows
    "filter is_tab_bar (render ''SystemDesign'' s) =
       [TabBarEl [(''Description'', activeSystemDesignSolutionTab s = ''Description''),
                  (''Requirements'', activeSystemDesignSolutionTab s = ''Requirements''),
                  (''Diagram'', activeSystemDesignSolutionTab s = ''Diagram''),
                  (''Database Schema'', activeSystemDesignSolutionTab s = ''Database Schema''),
                  (''Tradeoff'', activeSystemDesignSolutionTab s = ''Tradeoff'')]] \<and>
     activeSystemDesignSolutionTab (initial_state c v) = ''Diagram'' \<and>
     filter is_coding_section (render ''SystemDesign'' s) = [] \<and>
     (activeSystemDesignSolutionTab s = ''Description'' \<longrightarrow>
        filter is_tab_content (render ''SystemDesign'' s) = [DescriptionEl]) \<and>
     (activeSystemDesignSolutionTab s = ''Requirements'' \<longrightarrow>
        filter is_tab_content (render ''SystemDesign'' s) = [RequirementsEl]) \<and>
     (activeSystemDesignSolutionTab s = ''Diagram'' \<longrightarrow>
        filter is_tab_content (render ''SystemDesign'' s) = [DiagramEl]) \<and>
     (activeSystemDesignSolutionTab s = ''Database Schema'' \<longrightarrow>
        filter is_tab_content (render ''SystemDesign'' s) = [DatabaseSchemaEl]) \<and>
     (activeSystemDesignSolutionTab s = ''Tradeoff'' \<longrightarrow>
        filter is_tab_content (render ''SystemDesign'' s) = [TradeOffEl]) \<and>
     filter is_tab_bar (render ''Coding'' s) = [] \<and>
     filter is_tab_content (render ''Coding'' s) = [] \<and>
     filter is_coding_section (render ''Coding'' s) =
       (if truthy (solutionData s) then [ThoughtsEl, SolutionEl, ComplexityEl]
        else if problemStatementData s \<noteq> None then [ProblemStatementEl, GeneratingSolutionsEl]
        else [ProblemStatementEl])"
  using assms by (auto simp add: render_def shown_if_def TABS_def initial_state_def)

theorem render_modes_witness:
  "filter is_tab_content (render ''SystemDesign'' first_run_state) = [DiagramEl] \<and>
   filter is_tab_content
     (render ''SystemDesign'' (setActiveSystemDesignSolutionTab ''Tradeoff'' first_run_state)) =
     [TradeOffEl] \<and>
   filter is_coding_section (render ''Coding'' first_run_state) = [ProblemStatementEl]"
proof -
  have a: "isResetting first_run_state \<or>
      getQueryData (queryCache first_run_state) [''new_solution''] = None"
    by (simp add: state_eval)
  have b: "isResetting (setActiveSystemDesignSolutionTab ''Tradeoff'' first_run_state) \<or>
      getQueryData (queryCache (setActiveSystemDesignSolutionTab ''Tradeoff'' first_run_state))
        [''new_solution''] = None"
    by (simp add: state_eval setActiveSystemDesignSolutionTab_def)
  show ?thesis
    using render_modes [OF a] render_modes [OF b]
    by (simp add: state_eval setActiveSystemDesignSolutionTab_def truthy_def)
qed

text \<open>
  With debug data in the cache the component renders the debug view and nothing else,
  in either mode.
\<close>

theorem render_debug_view:
  "render ''SystemDesign'' debug_state = [DebugEl] \<and> render ''Coding'' debug_state = [DebugEl]"
  by (simp add: render_def state_eval)

section \<open>Properties of formatComplexity\<close>

text \<open>The search of the model finds exactly the texts of the regular expression.\<close>

lemma class_plus_close_iff:
  "class_plus_close cs \<longleftrightarrow>
     (\<exists>body post. cs = body @ CHR '')'' # post \<and> body \<noteq> [] \<and> CHR '')'' \<notin> set body)"
proof
  assume h: "class_plus_close cs"
  let ?body = "takeWhile (\<lambda>c. c \<noteq> CHR '')'') cs"
  let ?rest = "dropWhile (\<lambda>c. c \<noteq> CHR '')'') cs"
  from h have ne: "?body \<noteq> []" and rest: "?rest \<noteq> []"
    by (simp_all add: class_plus_close_def)
  from rest have "hd ?rest = CHR '')''"
    using hd_dropWhile [of "\<lambda>c. c \<noteq> CHR '')''" cs] by simp
  with rest have "?rest = CHR '')'' # tl ?rest"
    by (cases ?rest) simp_all
  then have "cs = ?body @ CHR '')'' # tl ?rest"
    using takeWhile_dropWhile_id [of "\<lambda>c. c \<noteq> CHR '')''" cs] by simp
  moreover have "CHR '')'' \<notin> set ?body"
    using set_takeWhileD by fastforce
  ultimately show "\<exists>body post. cs = body @ CHR '')'' # post \<and> body \<noteq> [] \<and> CHR '')'' \<notin> set body"
    using ne by blast
next
  assume "\<exists>body post. cs = body @ CHR '')'' # post \<and> body \<noteq> [] \<and> CHR '')'' \<notin> set body"
  then obtain body post where cs: "cs = body @ CHR '')'' # post"
    and ne: "body \<noteq> []" and free: "CHR '')'' \<notin> set body"
    by blast
  from free have "\<forall>c\<in>set body. c \<noteq> CHR '')''" by blast
  then have "takeWhile (\<lambda>c. c \<noteq> CHR '')'') cs = body"
    and "dropWhile (\<lambda>c. c \<noteq> CHR '')'') cs = CHR '')'' # post"
    by (simp_all add: cs takeWhile_append2 dropWhile_append2)
  with ne show "class_plus_close cs"
    by (simp add: class_plus_close_def)
qed

lemma match_at_iff:
  "match_at s \<longleftrightarrow>
     (\<exists>l body post. s = l # CHR ''('' # body @ CHR '')'' # post \<and>
        (l = CHR ''O'' \<or> l = CHR ''o'') \<and> body \<noteq> [] \<and> CHR '')'' \<notin> set body)"
proof (cases s)
  case Nil
  then show ?thesis by simp
next
  case (Cons c t)
  show ?thesis
  proof (cases t)
    case Nil
    with Cons show ?thesis by simp
  next
    case (Cons d cs)
    with \<open>s = c # t\<close> show ?thesis
      by (auto simp add: class_plus_close_iff)
  qed
qed

lemma bigO_match_iff: "bigO_match s \<longleftrightarrow> contains_bigO s"
proof (induction s)
  case Nil
  show ?case by (simp add: contains_bigO_def)
next
  case (Cons c cs)
  have "contains_bigO (c # cs) \<longleftrightarrow> match_at (c # cs) \<or> contains_bigO cs"
  proof
    assume "contains_bigO (c # cs)"
    then obtain pre l body post where eq: "c # cs = pre @ l # CHR ''('' # body @ CHR '')'' # post"
      and l: "l = CHR ''O'' \<or> l = CHR ''o''" and b: "body \<noteq> []" "CHR '')'' \<notin> set body"
      unfolding contains_bigO_def by blast
    show "match_at (c # cs) \<or> contains_bigO cs"
    proof (cases pre)
      case Nil
      with eq l b have "match_at (c # cs)"
        unfolding match_at_iff by auto
      then show ?thesis ..
    next
      case (Cons p ps)
      with eq have "cs = ps @ l # CHR ''('' # body @ CHR '')'' # post" by simp
      with l b have "contains_bigO cs"
        unfolding contains_bigO_def by blast
      then show ?thesis ..
    qed
  next
    assume "match_at (c # cs) \<or> contains_bigO cs"
    then show "contains_bigO (c # cs)"
    proof
      assume "match_at (c # cs)"
      then obtain l body post where "c # cs = [] @ l # CHR ''('' # body @ CHR '')'' # post"
        and "l = CHR ''O'' \<or> l = CHR ''o''" and "body \<noteq> []" "CHR '')'' \<notin> set body"
        unfolding match_at_iff by auto
      then show ?thesis
        unfolding contains_bigO_def by blast
    next
      assume "contains_bigO cs"
      then obtain pre l body post where "cs = pre @ l # CHR ''('' # body @ CHR '')'' # post"
        and l: "l = CHR ''O'' \<or> l = CHR ''o''" and b: "body \<noteq> []" "CHR '')'' \<notin> set body"
        unfolding contains_bigO_def by blast
      then have "c # cs = (c # pre) @ l # CHR ''('' # body @ CHR '')'' # post" by simp
      with l b show ?thesis
        unfolding contains_bigO_def by blast
    qed
  qed
  with Cons show ?case by simp
qed

lemma formatComplexity_matches: "bigO_match (formatComplexity x)"
  by (simp add: formatComplexity_def class_plus_close_def split: option.splits)

lemma formatComplexity_nonempty: "formatComplexity x \<noteq> []"
  by (auto simp add: formatComplexity_def split: option.splits)

text \<open>
  C8, as the code has it. \<open>formatComplexity\<close> is total and idempotent: for null and for
  the empty string it returns "O(n) - Linear time/space complexity"; a string that
  contains a Big-O pattern (O or o, an opening parenthesis, at least one character
  other than a closing parenthesis, a closing parenthesis) is returned unchanged; every
  other non-empty string \<open>s\<close> gives "O(n) - " followed by \<open>s\<close>; and formatting a result
  again returns it unchanged.
\<close>

theorem formatComplexity_cases:
  "formatComplexity None = ''O(n) - Linear time/space complexity'' \<and>
   formatComplexity (Some []) = ''O(n) - Linear time/space complexity'' \<and>
   (contains_bigO s \<longrightarrow> formatComplexity (Some s) = s) \<and>
   (s \<noteq> [] \<and> \<not> contains_bigO s \<longrightarrow> formatComplexity (Some s) = ''O(n) - '' @ s) \<and>
   formatComplexity (Some (formatComplexity x)) = formatComplexity x"
proof -
  have "contains_bigO s \<Longrightarrow> s \<noteq> []"
    by (auto simp add: contains_bigO_def)
  moreover have "formatComplexity (Some (formatComplexity x)) = formatComplexity x"
    using formatComplexity_matches [of x] formatComplexity_nonempty [of x]
    by (simp add: formatComplexity_def [of "Some _"])
  ultimately show ?thesis
    by (auto simp add: formatComplexity_def bigO_match_iff)
qed

theorem formatComplexity_cases_witness:
  "formatComplexity (Some ''o(log n) amortised'') = ''o(log n) amortised'' \<and>
   formatComplexity (Some ''linear'') = ''O(n) - linear'' \<and>
   formatComplexity (Some (formatComplexity (Some ''linear''))) = ''O(n) - linear''"
proof -
  have a: "contains_bigO ''o(log n) amortised''"
    unfolding bigO_match_iff [symmetric] by (simp add: class_plus_close_def)
  have b: "\<not> contains_bigO ''linear''"
    unfolding bigO_match_iff [symmetric] by (simp add: class_plus_close_def)
  show ?thesis
    using a b formatComplexity_cases [of "''o(log n) amortised''" "Some ''linear''"]
      formatComplexity_cases [of "''linear''" "Some ''linear''"]
    by simp
qed

text \<open>
  The empty string contains no Big-O pattern, and yet it is not prefixed: it is falsy
  and gets the default text.
\<close>

theorem formatComplexity_empty_string:
  "\<not> contains_bigO [] \<and>
   formatComplexity (Some []) = ''O(n) - Linear time/space complexity'' \<and>
   formatComplexity (Some []) \<noteq> ''O(n) - '' @ []"
  by (simp add: formatComplexity_def contains_bigO_def)

section \<open>Properties of the diagram layout\<close>

subsection \<open>The node map, the fan-out table and findIndex\<close>

lemma foldl_nodeMap:
  "foldl (\<lambda>m node. m(node_id node \<mapsto> g (node_id node))) m0 nodes k =
     (if k \<in> node_id ` set nodes then Some (g k) else m0 k)"
  by (induction nodes arbitrary: m0) auto

lemma build_nodeMap_lookup:
  "build_nodeMap g nodes k = (if k \<in> node_id ` set nodes then Some (g k) else None)"
  by (simp add: build_nodeMap_def foldl_nodeMap)

lemma build_fanout_lookup:
  "build_fanout nm edges m0 = Inr m \<Longrightarrow>
   m s = (case m0 s of
            None \<Rightarrow> (if outgoing edges s = [] then None
                     else Some (map (fanout_entry nm) (outgoing edges s)))
          | Some ts \<Rightarrow> Some (ts @ map (fanout_entry nm) (outgoing edges s)))"
proof (induction edges arbitrary: m0)
  case Nil
  then show ?case by (simp add: outgoing_def split: option.splits)
next
  case (Cons e es)
  from Cons.prems obtain m1 where step: "add_fanout nm e m0 = Inr m1"
    and rest: "build_fanout nm es m1 = Inr m"
    by (auto split: sum.splits)
  note ih = Cons.IH [OF rest]
  from step show ?case
    unfolding ih
    by (auto simp add: add_fanout_def outgoing_def split: option.splits if_splits)
qed

lemma build_fanout_error_iff:
  assumes "\<forall>k\<in>set object_prototype_keys. m0 k = None"
  shows "(\<exists>err. build_fanout nm edges m0 = Inl err) \<longleftrightarrow>
           (\<exists>e\<in>set edges. source e \<in> set object_prototype_keys)"
  using assms
proof (induction edges arbitrary: m0)
  case Nil
  show ?case by simp
next
  case (Cons e es)
  show ?case
  proof (cases "source e \<in> set object_prototype_keys")
    case True
    with Cons.prems have "add_fanout nm e m0 = Inl TypeError"
      by (simp add: add_fanout_def)
    with True show ?thesis by simp
  next
    case False
    define m1 where "m1 = (case m0 (source e) of
        None \<Rightarrow> m0(source e \<mapsto> [fanout_entry nm e])
      | Some ts \<Rightarrow> m0(source e \<mapsto> ts @ [fanout_entry nm e]))"
    from False have step: "add_fanout nm e m0 = Inr m1"
      by (simp add: add_fanout_def m1_def split: option.splits)
    from False Cons.prems have keep: "\<forall>k\<in>set object_prototype_keys. m1 k = None"
      by (auto simp add: m1_def split: option.splits)
    from Cons.IH [OF keep] step False show ?thesis by simp
  qed
qed

lemma getLayoutedElements_Inr:
  assumes "getLayoutedElements dagre nodes edges direction = Inr r"
  obtains g stt where
    "dagre_centres dagre nodes edges direction = Inr g"
    "build_fanout (build_nodeMap g nodes) edges Map.empty = Inr stt"
    "layoutedNodes r = map (layout_node g (direction = LR \<or> direction = RL_dir)) nodes"
    "layoutedEdges r = map (layout_edge (build_nodeMap g nodes) stt direction) edges"
  using assms by (auto simp add: getLayoutedElements_def Let_def split: sum.splits)

text \<open>
  The function returns exactly when the layout library returns and no edge names a
  property of \<^verbatim>\<open>Object.prototype\<close> as its source.
\<close>

lemma getLayoutedElements_returns_iff:
  "(\<exists>r. getLayoutedElements dagre nodes edges direction = Inr r) \<longleftrightarrow>
     (\<exists>g. dagre_centres dagre nodes edges direction = Inr g) \<and>
     (\<forall>e\<in>set edges. source e \<notin> set object_prototype_keys)"
proof (cases "dagre_centres dagre nodes edges direction")
  case (Inl err)
  then show ?thesis
    by (simp add: getLayoutedElements_def)
next
  case (Inr g)
  have key: "(\<exists>err. build_fanout (build_nodeMap g nodes) edges Map.empty = Inl err) \<longleftrightarrow>
      (\<exists>e\<in>set edges. source e \<in> set object_prototype_keys)"
    by (rule build_fanout_error_iff) simp
  show ?thesis
  proof (cases "build_fanout (build_nodeMap g nodes) edges Map.empty")
    case (Inl err)
    with Inr key show ?thesis
      by (auto simp add: getLayoutedElements_def Let_def)
  next
    case (Inr stt)
    with \<open>dagre_centres dagre nodes edges direction = Inr g\<close> key show ?thesis
      by (auto simp add: getLayoutedElements_def Let_def)
  qed
qed

lemma findIndex_first:
  "\<exists>v\<in>set vs. p v \<Longrightarrow>
   \<exists>k<length vs. findIndex p vs = int k \<and> p (vs ! k) \<and> (\<forall>j<k. \<not> p (vs ! j))"
proof (induction vs)
  case Nil
  then show ?case by simp
next
  case (Cons v vs)
  show ?case
  proof (cases "p v")
    case True
    then show ?thesis by auto
  next
    case False
    with Cons.prems have "\<exists>v\<in>set vs. p v" by simp
    from Cons.IH [OF this] obtain k where k: "k < length vs" "findIndex p vs = int k"
      "p (vs ! k)" "\<forall>j<k. \<not> p (vs ! j)"
      by blast
    have "\<forall>j<Suc k. \<not> p ((v # vs) ! j)"
      using False k(4) by (auto simp add: nth_Cons')
    with False k show ?thesis
      by (intro exI [of _ "Suc k"]) (simp add: Let_def)
  qed
qed

lemma findIndex_map: "findIndex p (map h vs) = findIndex (\<lambda>v. p (h v)) vs"
  by (induction vs) simp_all

lemma insort_key_map:
  "insort_key f (h v) (map h vs) = map h (insort_key (\<lambda>u. f (h u)) v vs)"
  by (induction vs) simp_all

lemma sort_key_map: "sort_key f (map h vs) = map h (sort_key (\<lambda>u. f (h u)) vs)"
  by (induction vs) (simp_all add: insort_key_map)

lemma insort_key_cong_set:
  "f v = g v \<Longrightarrow> \<forall>u\<in>set vs. f u = g u \<Longrightarrow> insort_key f v vs = insort_key g v vs"
  by (induction vs) simp_all

lemma sort_key_cong_set: "\<forall>u\<in>set vs. f u = g u \<Longrightarrow> sort_key f vs = sort_key g vs"
proof (induction vs)
  case Nil
  show ?case by simp
next
  case (Cons v vs)
  then have "sort_key f vs = sort_key g vs" by simp
  moreover from Cons.prems have "insort_key f v (sort_key g vs) = insort_key g v (sort_key g vs)"
    by (intro insort_key_cong_set) simp_all
  ultimately show ?case by simp
qed

lemma layout_edge_transform:
  "map_option transform (labelStyle (layout_edge nm stt direction e)) =
     Some (label_transform nm stt direction e)"
  by (simp add: layout_edge_def)

lemma label_transform_fanout:
  assumes "nm (source e) = Some sp" and "nm (target e) = Some tp"
    and "stt (source e) = Some l" and "1 < length l"
  shows "label_transform nm stt TB e =
     (let index = findIndex (\<lambda>t. targetId t = target e) (sort_key target_x l)
      in if index = 0 then ''translate(-100px, -16px)''
         else if index = int (length (sort_key target_x l)) - 1 then ''translate(100px, -16px)''
         else ''translate(0px, -20px)'')"
  using assms by (simp add: label_transform_def Let_def)

text \<open>
  The fan-out list of a source whose targets are all in the node list, read by target
  id after the sort, is the list of its targets sorted by their x-coordinate.
\<close>

lemma sorted_fanout_targets:
  assumes "\<forall>e\<in>set (outgoing edges s). target e \<in> node_id ` set nodes"
  shows "map targetId (sort_key target_x (map (fanout_entry (build_nodeMap g nodes)) (outgoing edges s))) =
     sorted_targets g edges s"
proof -
  let ?nm = "build_nodeMap g nodes"
  have "\<forall>e\<in>set (outgoing edges s). target_x (fanout_entry ?nm e) = x_coord (g (target e))"
    using assms by (simp add: fanout_entry_def build_nodeMap_lookup)
  then have "sort_key (\<lambda>e. target_x (fanout_entry ?nm e)) (outgoing edges s) =
      sort_key (\<lambda>e. x_coord (g (target e))) (outgoing edges s)"
    by (rule sort_key_cong_set)
  then have "sort_key target_x (map (fanout_entry ?nm) (outgoing edges s)) =
      map (fanout_entry ?nm) (sort_key (\<lambda>e. x_coord (g (target e))) (outgoing edges s))"
    by (simp add: sort_key_map)
  then have "map targetId (sort_key target_x (map (fanout_entry ?nm) (outgoing edges s))) =
      map (\<lambda>e. targetId (fanout_entry ?nm e))
        (sort_key (\<lambda>e. x_coord (g (target e))) (outgoing edges s))"
    by simp
  also have "(\<lambda>e. targetId (fanout_entry ?nm e)) = target"
    by (simp add: fanout_entry_def fun_eq_iff)
  also have "map target (sort_key (\<lambda>e. x_coord (g (target e))) (outgoing edges s)) =
      sorted_targets g edges s"
    by (simp add: sorted_targets_def sort_key_map)
  finally show ?thesis .
qed

lemmas layout_eval =
  getLayoutedElements_def systemDesign_nodes_def systemDesign_edges_def mk_node_def mk_edge_def
  sample_dagre_def sample_centre_def sample_centres_def dagre_centres_def build_nodeMap_def
  add_fanout_def fanout_entry_def object_prototype_keys_def layout_edge_def label_transform_def
  layout_node_def label_transforms_def Let_def nodeWidth_def nodeHeight_def

lemmas diagram_eval =
  systemDesign_nodes_def systemDesign_edges_def mk_node_def mk_edge_def outgoing_def
  sorted_targets_def sample_centre_def sample_centres_def

text \<open>
  On the diagram of the component the function returns whenever the layout library
  does.
\<close>

lemma diagram_layout_returns:
  assumes "dagre_centres dagre systemDesign_nodes systemDesign_edges direction = Inr g"
  shows "\<exists>r. getLayoutedElements dagre systemDesign_nodes systemDesign_edges direction = Inr r"
  unfolding getLayoutedElements_returns_iff using assms
  by (simp add: systemDesign_edges_def mk_edge_def object_prototype_keys_def)

lemma sample_dagre_centres: "dagre_centres sample_dagre nodes edges direction = Inr sample_centre"
  by (simp add: dagre_centres_def sample_dagre_def)

subsection \<open>Nodes\<close>

text \<open>
  C9. For every node that \<open>getLayoutedElements\<close> lays out, the returned position is the
  centre computed by the layout library minus half the fixed node size, \<open>(x - 60, y - 30)\<close>,
  and the handles depend on the direction only: source Right and target Left for
  \<^verbatim>\<open>LR\<close> and \<^verbatim>\<open>RL\<close>, source Bottom and target Top otherwise.
\<close>

theorem layouted_node_geometry:
  assumes "getLayoutedElements dagre nodes edges direction = Inr r"
    and "i < length nodes"
  shows
    "\<exists>g. dagre_centres dagre nodes edges direction = Inr g \<and>
       position (layoutedNodes r ! i) =
         \<lparr>x_coord = x_coord (g (node_id (nodes ! i))) - 60,
          y_coord = y_coord (g (node_id (nodes ! i))) - 30\<rparr> \<and>
       sourcePosition (layoutedNodes r ! i) =
         Some (if direction = LR \<or> direction = RL_dir then Right else Bottom) \<and>
       targetPosition (layoutedNodes r ! i) =
         Some (if direction = LR \<or> direction = RL_dir then Left else Top)"
proof -
  from assms(1) obtain g where g: "dagre_centres dagre nodes edges direction = Inr g"
    and "layoutedNodes r = map (layout_node g (direction = LR \<or> direction = RL_dir)) nodes"
    by (rule getLayoutedElements_Inr)
  with assms(2) show ?thesis
    by (simp add: layout_node_def nodeWidth_def nodeHeight_def)
qed

theorem layouted_node_geometry_witness:
  "position (returned_nodes (getLayoutedElements sample_dagre systemDesign_nodes systemDesign_edges LR) ! 5) =
     \<lparr>x_coord = 20, y_coord = 660\<rparr> \<and>
   sourcePosition (returned_nodes (getLayoutedElements sample_dagre systemDesign_nodes systemDesign_edges LR) ! 5) =
     Some Right \<and>
   targetPosition (returned_nodes (getLayoutedElements sample_dagre systemDesign_nodes systemDesign_edges LR) ! 5) =
     Some Left \<and>
   sourcePosition (returned_nodes (getLayoutedElements sample_dagre systemDesign_nodes systemDesign_edges TB) ! 5) =
     Some Bottom \<and>
   targetPosition (returned_nodes (getLayoutedElements sample_dagre systemDesign_nodes systemDesign_edges TB) ! 5) =
     Some Top"
proof -
  from diagram_layout_returns [OF sample_dagre_centres] obtain r
    where r: "getLayoutedElements sample_dagre systemDesign_nodes systemDesign_edges LR = Inr r"
    by blast
  from diagram_layout_returns [OF sample_dagre_centres] obtain r'
    where r': "getLayoutedElements sample_dagre systemDesign_nodes systemDesign_edges TB = Inr r'"
    by blast
  have n: "5 < length systemDesign_nodes"
    by (simp add: systemDesign_nodes_def)
  have a: "position (layoutedNodes r ! 5) = \<lparr>x_coord = 20, y_coord = 660\<rparr> \<and>
      sourcePosition (layoutedNodes r ! 5) = Some Right \<and>
      targetPosition (layoutedNodes r ! 5) = Some Left"
    using layouted_node_geometry [OF r n] by (auto simp add: sample_dagre_centres diagram_eval)
  have b: "sourcePosition (layoutedNodes r' ! 5) = Some Bottom \<and>
      targetPosition (layoutedNodes r' ! 5) = Some Top"
    using layouted_node_geometry [OF r' n] by auto
  from a b show ?thesis
    by (simp add: r r' returned_nodes_def)
qed

subsection \<open>What the function leaves as it was\<close>

text \<open>
  C6. Whatever node list and edge list \<open>getLayoutedElements\<close> is given, the lists it
  returns have the same length and order as its inputs; every node keeps its id and
  its data label and every edge its id, source, target and label text; the only fields
  set are the position, the two handles and the style of a node, and the marker, the
  label (the input's label, or the empty string when the input has none), the style,
  the label style and the label background of an edge.
\<close>

theorem getLayoutedElements_frame:
  assumes "getLayoutedElements dagre nodes edges direction = Inr r"
  shows
    "length (layoutedNodes r) = length nodes \<and>
     length (layoutedEdges r) = length edges \<and>
     (\<forall>i<length nodes.
        node_id (layoutedNodes r ! i) = node_id (nodes ! i) \<and>
        data (layoutedNodes r ! i) = data (nodes ! i) \<and>
        (\<exists>p sp tp st. layoutedNodes r ! i =
           (nodes ! i)\<lparr>position := p, sourcePosition := sp, targetPosition := tp,
                       node_style := st\<rparr>)) \<and>
     (\<forall>j<length edges.
        edge_id (layoutedEdges r ! j) = edge_id (edges ! j) \<and>
        source (layoutedEdges r ! j) = source (edges ! j) \<and>
        target (layoutedEdges r ! j) = target (edges ! j) \<and>
        (\<exists>m st ls bs bp br. layoutedEdges r ! j =
           (edges ! j)\<lparr>markerEnd := m,
                       edge_label := Some (case edge_label (edges ! j) of None \<Rightarrow> [] | Some l \<Rightarrow> l),
                       edge_style := st, labelStyle := ls, labelBgStyle := bs,
                       labelBgPadding := bp, labelBgBorderRadius := br\<rparr>))"
proof -
  from assms obtain g stt where
    ns: "layoutedNodes r = map (layout_node g (direction = LR \<or> direction = RL_dir)) nodes"
    and es: "layoutedEdges r = map (layout_edge (build_nodeMap g nodes) stt direction) edges"
    by (rule getLayoutedElements_Inr)
  have node: "node_id (layout_node g h n) = node_id n \<and> data (layout_node g h n) = data n \<and>
      (\<exists>p sp tp st. layout_node g h n =
         n\<lparr>position := p, sourcePosition := sp, targetPosition := tp, node_style := st\<rparr>)"
    for h and n :: "'a Node_scheme"
    unfolding layout_node_def by (intro conjI exI) simp_all
  have edge: "edge_id (layout_edge nm stt direction e) = edge_id e \<and>
      source (layout_edge nm stt direction e) = source e \<and>
      target (layout_edge nm stt direction e) = target e \<and>
      (\<exists>m st ls bs bp br. layout_edge nm stt direction e =
         e\<lparr>markerEnd := m,
           edge_label := Some (case edge_label e of None \<Rightarrow> [] | Some l \<Rightarrow> l),
           edge_style := st, labelStyle := ls, labelBgStyle := bs,
           labelBgPadding := bp, labelBgBorderRadius := br\<rparr>)"
    for nm and e :: "'b Edge_scheme"
    unfolding layout_edge_def by (intro conjI exI) simp_all
  show ?thesis
    unfolding ns es using node edge by simp
qed

theorem getLayoutedElements_frame_witness:
  "length (returned_nodes (getLayoutedElements sample_dagre systemDesign_nodes systemDesign_edges TB)) = 11 \<and>
   length (returned_edges (getLayoutedElements sample_dagre systemDesign_nodes systemDesign_edges TB)) = 12 \<and>
   node_id (returned_nodes (getLayoutedElements sample_dagre systemDesign_nodes systemDesign_edges TB) ! 5) = ''6'' \<and>
   data (returned_nodes (getLayoutedElements sample_dagre systemDesign_nodes systemDesign_edges TB) ! 5) =
     \<lparr>label = ''Engine A (AV)''\<rparr> \<and>
   edge_id (returned_edges (getLayoutedElements sample_dagre systemDesign_nodes systemDesign_edges TB) ! 4) = ''e5-6'' \<and>
   source (returned_edges (getLayoutedElements sample_dagre systemDesign_nodes systemDesign_edges TB) ! 4) = ''5'' \<and>
   target (returned_edges (getLayoutedElements sample_dagre systemDesign_nodes systemDesign_edges TB) ! 4) = ''6''"
proof -
  from diagram_layout_returns [OF sample_dagre_centres] obtain r
    where r: "getLayoutedElements sample_dagre systemDesign_nodes systemDesign_edges TB = Inr r"
    by blast
  note frame = getLayoutedElements_frame [OF r]
  have n: "length systemDesign_nodes = 11" and e: "length systemDesign_edges = 12"
    by (simp_all add: systemDesign_nodes_def systemDesign_edges_def)
  from frame n e have len: "length (layoutedNodes r) = 11" "length (layoutedEdges r) = 12"
    by simp_all
  from frame n have "node_id (layoutedNodes r ! 5) = node_id (systemDesign_nodes ! 5) \<and>
      data (layoutedNodes r ! 5) = data (systemDesign_nodes ! 5)"
    by simp
  then have a: "node_id (layoutedNodes r ! 5) = ''6'' \<and>
      data (layoutedNodes r ! 5) = \<lparr>label = ''Engine A (AV)''\<rparr>"
    by (simp add: systemDesign_nodes_def mk_node_def)
  from frame e have "edge_id (layoutedEdges r ! 4) = edge_id (systemDesign_edges ! 4) \<and>
      source (layoutedEdges r ! 4) = source (systemDesign_edges ! 4) \<and>
      target (layoutedEdges r ! 4) = target (systemDesign_edges ! 4)"
    by simp
  then have b: "edge_id (layoutedEdges r ! 4) = ''e5-6'' \<and>
      source (layoutedEdges r ! 4) = ''5'' \<and> target (layoutedEdges r ! 4) = ''6''"
    by (simp add: systemDesign_edges_def mk_edge_def)
  from len a b show ?thesis
    by (simp add: r returned_nodes_def returned_edges_def)
qed

subsection \<open>Label offsets at a fan-out point\<close>

text \<open>
  An edge with an end that is not in the node list, and every edge when the direction
  is not \<^verbatim>\<open>TB\<close>, keeps the default offset.
\<close>

lemma dangling_edge_transform:
  assumes "getLayoutedElements dagre nodes edges direction = Inr r"
    and "i < length edges"
    and "source (edges ! i) \<notin> node_id ` set nodes \<or> target (edges ! i) \<notin> node_id ` set nodes"
  shows "map_option transform (labelStyle (layoutedEdges r ! i)) = Some ''translate(0px, -16px)''"
proof -
  from assms(1) obtain g stt where
    "layoutedEdges r = map (layout_edge (build_nodeMap g nodes) stt direction) edges"
    by (rule getLayoutedElements_Inr)
  with assms(2) have "map_option transform (labelStyle (layoutedEdges r ! i)) =
      Some (label_transform (build_nodeMap g nodes) stt direction (edges ! i))"
    by (simp add: layout_edge_transform)
  with assms(3) show ?thesis
    by (auto simp add: label_transform_def build_nodeMap_lookup split: option.splits)
qed

lemma other_direction_transform:
  assumes "getLayoutedElements dagre nodes edges direction = Inr r"
    and "i < length edges" and "direction \<noteq> TB"
  shows "map_option transform (labelStyle (layoutedEdges r ! i)) = Some ''translate(0px, -16px)''"
proof -
  from assms(1) obtain g stt where
    "layoutedEdges r = map (layout_edge (build_nodeMap g nodes) stt direction) edges"
    by (rule getLayoutedElements_Inr)
  with assms(2) have "map_option transform (labelStyle (layoutedEdges r ! i)) =
      Some (label_transform (build_nodeMap g nodes) stt direction (edges ! i))"
    by (simp add: layout_edge_transform)
  with assms(3) show ?thesis
    by (simp add: label_transform_def split: option.splits)
qed

text \<open>
  C1, as the code has it. Let \<open>getLayoutedElements\<close> return for direction \<^verbatim>\<open>TB\<close>, and take
  an edge whose source is in the node list and has more than one outgoing edge, these
  outgoing edges leading to pairwise different targets that are all in the node list.
  Sort the targets of that source by their x-coordinate in the layout, targets with the
  same x-coordinate staying in the order of the edge list. Then the edge's target is in
  the sorted list, and the edge's label transform is \<^verbatim>\<open>translate(-100px, -16px)\<close> when
  its target stands first (leftmost), \<^verbatim>\<open>translate(100px, -16px)\<close> when it stands last
  (rightmost), and \<^verbatim>\<open>translate(0px, -20px)\<close> when it stands in between.
\<close>

theorem fanout_label_transform:
  fixes edges :: "'e Edge_scheme list" and nodes :: "'n Node_scheme list"
  assumes lay: "dagre_centres dagre nodes edges TB = Inr g"
    and ret: "getLayoutedElements dagre nodes edges TB = Inr r"
    and i: "i < length edges"
    and src: "source (edges ! i) \<in> node_id ` set nodes"
    and tgts: "\<forall>e\<in>set (outgoing edges (source (edges ! i))). target e \<in> node_id ` set nodes"
    and dist: "distinct (map target (outgoing edges (source (edges ! i))))"
    and fan: "1 < length (outgoing edges (source (edges ! i)))"
  shows
    "target (edges ! i) \<in> set (sorted_targets g edges (source (edges ! i))) \<and>
     (\<forall>k<length (sorted_targets g edges (source (edges ! i))).
        sorted_targets g edges (source (edges ! i)) ! k = target (edges ! i) \<longrightarrow>
        map_option transform (labelStyle (layoutedEdges r ! i)) =
          Some (if k = 0 then ''translate(-100px, -16px)''
                else if k = length (sorted_targets g edges (source (edges ! i))) - 1
                then ''translate(100px, -16px)''
                else ''translate(0px, -20px)''))"
proof -
  let ?nm = "build_nodeMap g nodes"
  let ?edge = "edges ! i"
  let ?out = "outgoing edges (source ?edge)"
  let ?l = "map (fanout_entry ?nm) ?out"
  let ?ts = "sorted_targets g edges (source ?edge)"
  let ?index = "findIndex (\<lambda>t. targetId t = target ?edge) (sort_key target_x ?l)"
  from ret lay obtain stt where
    stt: "build_fanout ?nm edges Map.empty = Inr stt"
    and les: "layoutedEdges r = map (layout_edge ?nm stt TB) edges"
    by (auto elim: getLayoutedElements_Inr)
  from i have mem: "?edge \<in> set ?out"
    by (simp add: outgoing_def)
  then have ne: "?out \<noteq> []" by auto
  from build_fanout_lookup [OF stt, of "source ?edge"] ne have look: "stt (source ?edge) = Some ?l"
    by simp
  from les i have tr: "map_option transform (labelStyle (layoutedEdges r ! i)) =
      Some (label_transform ?nm stt TB ?edge)"
    by (simp add: layout_edge_transform)
  from src have sp: "?nm (source ?edge) = Some (g (source ?edge))"
    by (simp add: build_nodeMap_lookup)
  from mem tgts have tp: "?nm (target ?edge) = Some (g (target ?edge))"
    by (simp add: build_nodeMap_lookup)
  have ll: "1 < length ?l"
    using fan by simp
  have ids: "map targetId (sort_key target_x ?l) = ?ts"
    using tgts by (rule sorted_fanout_targets)
  then have len: "length (sort_key target_x ?l) = length ?ts"
    by (metis length_map)
  have "label_transform ?nm stt TB ?edge =
      (if ?index = 0 then ''translate(-100px, -16px)''
       else if ?index = int (length (sort_key target_x ?l)) - 1 then ''translate(100px, -16px)''
       else ''translate(0px, -20px)'')"
    using label_transform_fanout [of ?nm ?edge _ _ stt ?l] sp tp look ll
    by (simp add: Let_def)
  then have shape: "label_transform ?nm stt TB ?edge =
      (if ?index = 0 then ''translate(-100px, -16px)''
       else if ?index = int (length ?ts) - 1 then ''translate(100px, -16px)''
       else ''translate(0px, -20px)'')"
    unfolding len .
  have idx: "?index = findIndex (\<lambda>t. t = target ?edge) ?ts"
    unfolding ids [symmetric] by (simp add: findIndex_map)
  have set_ts: "set ?ts = target ` set ?out"
    by (simp add: sorted_targets_def)
  with mem have in_ts: "target ?edge \<in> set ?ts" by blast
  have dts: "distinct ?ts"
    using dist by (simp add: sorted_targets_def)
  have pos: "?index = int k" if "k < length ?ts" "?ts ! k = target ?edge" for k
  proof -
    from in_ts have "\<exists>v\<in>set ?ts. v = target ?edge" by simp
    from findIndex_first [OF this] obtain k' where k': "k' < length ?ts"
      "findIndex (\<lambda>t. t = target ?edge) ?ts = int k'" "?ts ! k' = target ?edge"
      by blast
    have "k' = k"
      using nth_eq_iff_index_eq [OF dts k'(1) that(1)] k'(3) that(2) by simp
    with k'(2) idx show ?thesis by simp
  qed
  have lts: "1 < length ?ts"
    using fan by (simp add: sorted_targets_def)
  show ?thesis
  proof (intro conjI allI impI)
    show "target ?edge \<in> set ?ts" by (rule in_ts)
  next
    fix k
    assume k: "k < length ?ts" and at: "?ts ! k = target ?edge"
    from pos [OF k at] have "?index = int k" .
    moreover from lts have "int k = int (length ?ts) - 1 \<longleftrightarrow> k = length ?ts - 1"
      by auto
    ultimately show "map_option transform (labelStyle (layoutedEdges r ! i)) =
        Some (if k = 0 then ''translate(-100px, -16px)''
              else if k = length ?ts - 1 then ''translate(100px, -16px)''
              else ''translate(0px, -20px)'')"
      unfolding tr shape by simp
  qed
qed

theorem fanout_label_transform_witness:
  "label_transforms (getLayoutedElements sample_dagre systemDesign_nodes systemDesign_edges TB) ! 4 =
     Some ''translate(-100px, -16px)'' \<and>
   label_transforms (getLayoutedElements sample_dagre systemDesign_nodes systemDesign_edges TB) ! 5 =
     Some ''translate(0px, -20px)'' \<and>
   label_transforms (getLayoutedElements sample_dagre systemDesign_nodes systemDesign_edges TB) ! 6 =
     Some ''translate(100px, -16px)'' \<and>
   sorted_targets sample_centre systemDesign_edges ''5'' = [''6'', ''7'', ''8'']"
proof -
  from diagram_layout_returns [OF sample_dagre_centres] obtain r
    where r: "getLayoutedElements sample_dagre systemDesign_nodes systemDesign_edges TB = Inr r"
    by blast
  from r have len: "length (layoutedEdges r) = 12"
    by (rule getLayoutedElements_Inr) (simp add: systemDesign_edges_def)
  have ts: "sorted_targets sample_centre systemDesign_edges ''5'' = [''6'', ''7'', ''8'']"
    by (simp add: diagram_eval)
  have a: "map_option transform (labelStyle (layoutedEdges r ! 4)) = Some ''translate(-100px, -16px)''"
    using fanout_label_transform
      [OF sample_dagre_centres r, of 4, THEN conjunct2, THEN spec [where x = "0::nat"]]
    by (simp add: diagram_eval)
  have b: "map_option transform (labelStyle (layoutedEdges r ! 5)) = Some ''translate(0px, -20px)''"
    using fanout_label_transform
      [OF sample_dagre_centres r, of 5, THEN conjunct2, THEN spec [where x = "1::nat"]]
    by (simp add: diagram_eval)
  have c: "map_option transform (labelStyle (layoutedEdges r ! 6)) = Some ''translate(100px, -16px)''"
    using fanout_label_transform
      [OF sample_dagre_centres r, of 6, THEN conjunct2, THEN spec [where x = "2::nat"]]
    by (simp add: diagram_eval)
  from a b c len ts show ?thesis
    by (simp add: r label_transforms_def)
qed

text \<open>
  With a tie the order of the edge list decides: \<open>q\<close> and \<open>r\<close> share the smallest
  x-coordinate, \<open>q\<close> comes first in the edge list and gets the leftmost offset, \<open>r\<close>
  the in-between one.
\<close>

lemma fanout_label_transform_tie:
  "sorted_targets tie_centre tie_edges ''s'' = [''q'', ''r'', ''p''] \<and>
   label_transforms (getLayoutedElements tie_dagre tie_nodes tie_edges TB) =
     [Some ''translate(100px, -16px)'', Some ''translate(-100px, -16px)'',
      Some ''translate(0px, -20px)'']"
  by (simp add: getLayoutedElements_def tie_nodes_def tie_edges_def tie_dagre_def tie_centre_def
      mk_node_def mk_edge_def dagre_centres_def build_nodeMap_def add_fanout_def fanout_entry_def
      object_prototype_keys_def layout_edge_def label_transform_def label_transforms_def Let_def
      sorted_targets_def outgoing_def)

text \<open>
  Two diagrams on which the claim, read for every edge list, fails. With a second
  edge from node 5 to node 8, the rightmost target, both edges to node 8 get the
  in-between transform and no edge of node 5 gets \<^verbatim>\<open>translate(100px, -16px)\<close>. With an
  edge from node 5 to a node 12 that is not in the node list, that edge gets the
  default \<^verbatim>\<open>translate(0px, -16px)\<close>, which is none of the three.
\<close>

theorem fanout_label_transform_counterexample:
  "map (nth (label_transforms
              (getLayoutedElements sample_dagre systemDesign_nodes parallel_edges TB)))
     [4, 5, 6, 12] =
     [Some ''translate(-100px, -16px)'', Some ''translate(0px, -20px)'',
      Some ''translate(0px, -20px)'', Some ''translate(0px, -20px)''] \<and>
   map target (outgoing parallel_edges ''5'') = [''6'', ''7'', ''8'', ''8''] \<and>
   x_coord (sample_centre ''6'') = 80 \<and>
   x_coord (sample_centre ''7'') = 280 \<and>
   x_coord (sample_centre ''8'') = 480 \<and>
   label_transforms (getLayoutedElements sample_dagre systemDesign_nodes dangling_edges TB) ! 12 =
     Some ''translate(0px, -16px)'' \<and>
   map target (outgoing dangling_edges ''5'') = [''6'', ''7'', ''8'', ''12'']"
  by (simp add: layout_eval parallel_edges_def dangling_edges_def outgoing_def)

end
